theory Spec2Isabelle
  imports Main "HOL-Library.AList"
begin

section \<open>JavaScript strings and arrays\<close>

text \<open>
  Strings are lists of characters, and the names and verbs of this development are ASCII.
  Case conversion is the ASCII part of JavaScript's \<open>toLowerCase\<close> and \<open>toUpperCase\<close>: a letter
  outside \<open>a..z\<close> and \<open>A..Z\<close> is left alone, where JavaScript converts the letters of other
  alphabets as well.
\<close>

definition toLowerCase :: "string \<Rightarrow> string" where
  "toLowerCase s =
     map (\<lambda>c. case map_of (zip ''ABCDEFGHIJKLMNOPQRSTUVWXYZ'' ''abcdefghijklmnopqrstuvwxyz'') c of
                 Some l \<Rightarrow> l | None \<Rightarrow> c) s"

definition toUpperCase :: "string \<Rightarrow> string" where
  "toUpperCase s =
     map (\<lambda>c. case map_of (zip ''abcdefghijklmnopqrstuvwxyz'' ''ABCDEFGHIJKLMNOPQRSTUVWXYZ'') c of
                 Some u \<Rightarrow> u | None \<Rightarrow> c) s"

text \<open>\<open>s.split(' ')\<close>: the pieces between single spaces; the empty string gives one empty piece.\<close>

fun split_space :: "string \<Rightarrow> string list" where
  "split_space [] = [[]]"
| "split_space (c # cs) =
     (if c = CHR '' '' then [] # split_space cs
      else (case split_space cs of [] \<Rightarrow> [[c]] | w # ws \<Rightarrow> (c # w) # ws))"

text \<open>\<open>xs.join(sep)\<close>.\<close>

fun join :: "string \<Rightarrow> string list \<Rightarrow> string" where
  "join sep [] = []"
| "join sep [x] = x"
| "join sep (x # y # ys) = x @ sep @ join sep (y # ys)"

text \<open>The decimal digits of a number, as string concatenation \<open>'port=' + net.port\<close> writes it.\<close>

fun digits :: "nat \<Rightarrow> string" where
  "digits n =
     (if n < 10 then [''0123456789'' ! n]
      else digits (n div 10) @ [''0123456789'' ! (n mod 10)])"

text \<open>
  \<open>new Set(xs)\<close> keeps the first occurrence of every element, in insertion order; a set is
  modelled by the list of its elements in that order.
\<close>

definition new_Set :: "'a list \<Rightarrow> 'a list" where
  "new_Set xs = rev (remdups (rev xs))"

definition Set_add :: "'a \<Rightarrow> 'a list \<Rightarrow> 'a list" where
  "Set_add x xs = (if x \<in> set xs then xs else xs @ [x])"

section \<open>The connection state (class ConnectionState)\<close>

subsection \<open>Buffers\<close>

record IrcBuffer =
  name :: string
  key :: string
  joined :: bool
  topic :: string
  isChannel :: bool
  lastSeen :: nat

text \<open>
  The constructor \<open>new IrcBuffer(name, upstreamCon)\<close>. The upstream connection is only asked
  \<open>isChannelName(name)\<close>, so it is passed as that predicate, \<open>None\<close> when it is left out.
\<close>

definition new_IrcBuffer :: "string \<Rightarrow> (string \<Rightarrow> bool) option \<Rightarrow> IrcBuffer" where
  "new_IrcBuffer n upstreamCon =
     \<lparr> name = n, key = [], joined = False, topic = [],
       isChannel = (case upstreamCon of Some isChannelName \<Rightarrow> isChannelName n | None \<Rightarrow> True),
       lastSeen = 0 \<rparr>"

text \<open>
  \<open>IrcBuffer.fromObj(obj)\<close>: a fresh buffer named \<open>obj.name\<close> with \<open>key\<close>, \<open>joined\<close>, \<open>topic\<close> and
  \<open>isChannel\<close> copied over. \<open>lastSeen\<close> is not copied: it stays at the constructor's 0.
\<close>

definition fromObj :: "IrcBuffer \<Rightarrow> IrcBuffer" where
  "fromObj obj =
     (let c = new_IrcBuffer (name obj) None in
      c\<lparr> key := key obj, joined := joined obj, topic := topic obj, isChannel := isChannel obj \<rparr>)"

text \<open>
  The buffer map \<open>buffers\<close> is made in two ways. The constructor and the branch of \<open>load\<close>
  with a row make it \<open>Object.create(null)\<close>, an object without a prototype: its properties are
  exactly the keys that were assigned. The branch of \<open>load\<close> without a row makes it \<open>[]\<close>, an
  Array. The two are kept apart. Each holds its string-keyed properties as an association
  list in the order of assignment; \<open>JSArray al\<close> is an Array without elements whose own
  properties, besides \<open>length\<close>, are \<open>al\<close>, each under a plain key (see below).
\<close>

datatype buffers_t =
  NullProto "(string \<times> IrcBuffer) list"
| JSArray "(string \<times> IrcBuffer) list"

fun entries :: "buffers_t \<Rightarrow> (string \<times> IrcBuffer) list" where
  "entries (NullProto al) = al"
| "entries (JSArray al) = al"

text \<open>
  An Array owns \<open>length\<close> and its indices and inherits the members of \<open>Array.prototype\<close> and
  \<open>Object.prototype\<close> (\<open>join\<close>, \<open>concat\<close>, \<open>constructor\<close> and so on). Read under such a key it
  answers something that is no buffer, and written under \<open>length\<close> or an index it does more
  than store. None of these names begins with a channel prefix. A key that does is plain: on
  a plain key an Array reads, writes and deletes its own property as every object does.
\<close>

definition plain_key :: "string \<Rightarrow> bool" where
  "plain_key k = (case k of [] \<Rightarrow> False | c # cs \<Rightarrow> c \<in> set ''#&+!'')"

text \<open>
  What an Array does with a key that is not plain depends on the members that the
  JavaScript engine gives to Arrays, and is not described here: an operation on the buffer
  map answers \<open>Described\<close> with its result, or \<open>NotDescribed\<close> for an Array and such a key.
\<close>

datatype 'a described = Described 'a | NotDescribed

text \<open>The value of \<open>buffers[k]\<close>: a buffer, or \<open>undefined\<close> (\<open>None\<close>).\<close>

definition read_key :: "buffers_t \<Rightarrow> string \<Rightarrow> IrcBuffer option described" where
  "read_key bs k =
     (case bs of
        NullProto al \<Rightarrow> Described (map_of al k)
      | JSArray al \<Rightarrow> if plain_key k then Described (map_of al k) else NotDescribed)"

text \<open>
  \<open>buffers[k] = b\<close> and \<open>delete buffers[k]\<close>. An assignment to an existing key keeps the key's
  place, a new key goes to the end.
\<close>

definition assign_key :: "string \<Rightarrow> IrcBuffer \<Rightarrow> buffers_t \<Rightarrow> buffers_t described" where
  "assign_key k b bs =
     (case bs of
        NullProto al \<Rightarrow> Described (NullProto (AList.update k b al))
      | JSArray al \<Rightarrow>
          if plain_key k then Described (JSArray (AList.update k b al)) else NotDescribed)"

definition delete_key :: "string \<Rightarrow> buffers_t \<Rightarrow> buffers_t described" where
  "delete_key k bs =
     (case bs of
        NullProto al \<Rightarrow> Described (NullProto (AList.delete k al))
      | JSArray al \<Rightarrow>
          if plain_key k then Described (JSArray (AList.delete k al)) else NotDescribed)"

subsection \<open>The record\<close>

text \<open>
  \<open>caps\<close> is created as a \<open>Set\<close> by the constructor and by \<open>load\<close>; the CAP handler of
  clientcommands.js treats it as an array. Both shapes are kept apart, because an array
  method called on a \<open>Set\<close> is a TypeError.
\<close>

datatype caps_t = CapsSet "string list" | CapsArray "string list"

fun Array_from :: "caps_t \<Rightarrow> string list" where
  "Array_from (CapsSet xs) = xs"
| "Array_from (CapsArray xs) = xs"

record sasl_t =
  sasl_account :: string
  sasl_password :: string

text \<open>
  \<open>tempData\<close> is a string-keyed object. The two files use the keys \<open>capping\<close>, \<open>reg.state\<close> and
  \<open>reg.queue\<close>; each is a field holding the type of value the code stores under it, \<open>None\<close> when
  the key is absent.
\<close>

record regState =
  reg_nick :: string
  reg_user :: string
  reg_pass :: string

record tempData_t =
  capping :: "string option"
  reg_state :: "regState option"
  reg_queue :: "string list option"

record ConnectionState =
  conId :: string
  loaded :: bool
  serverPrefix :: string
  registrationLines :: "string list"
  isupports :: "string list"
  caps :: caps_t
  buffers :: buffers_t
  nick :: "string option"
  account :: string
  username :: string
  realname :: string
  password :: string
  host :: string
  port :: nat
  tls :: bool
  tlsverify :: bool
  bindHost :: string
  type :: nat
  connected :: bool
  sasl :: sasl_t
  netRegistered :: bool
  receivedMotd :: bool
  authUserId :: nat
  authNetworkId :: nat
  authNetworkName :: string
  authAdmin :: bool
  linkedIncomingConIds :: "string list"
  logging :: bool
  tempData :: tempData_t

text \<open>
  The constructor. \<open>nick\<close> is optional because the NICK handler stores \<open>msg.params[0]\<close>, which
  is \<open>undefined\<close> for a NICK without parameters.
\<close>

definition new_ConnectionState :: "string \<Rightarrow> ConnectionState" where
  "new_ConnectionState i =
     \<lparr> conId = i, loaded = False, serverPrefix = ''bnc'', registrationLines = [],
       isupports = [], caps = CapsSet [], buffers = NullProto [], nick = Some ''unknown-user'',
       account = [], username = ''user'', realname = ''BNC user'', password = [],
       host = [], port = 6667, tls = False, tlsverify = True, bindHost = [], type = 0,
       connected = False, sasl = \<lparr> sasl_account = [], sasl_password = [] \<rparr>,
       netRegistered = False, receivedMotd = False, authUserId = 0, authNetworkId = 0,
       authNetworkName = [], authAdmin = False, linkedIncomingConIds = [], logging = True,
       tempData = \<lparr> capping = None, reg_state = None, reg_queue = None \<rparr> \<rparr>"

subsection \<open>Buffer operations\<close>

text \<open>
  Every operation lower-cases the name it is given and reads, writes or deletes that key of
  \<open>buffers\<close>.
\<close>

definition getBuffer :: "ConnectionState \<Rightarrow> string \<Rightarrow> IrcBuffer option described" where
  "getBuffer st n = read_key (buffers st) (toLowerCase n)"

text \<open>\<open>addBuffer(chan, upstreamCon)\<close>: \<open>chan\<close> is a name (\<open>Inl\<close>) or a stored object (\<open>Inr\<close>).\<close>

definition addBuffer ::
  "string + IrcBuffer \<Rightarrow> (string \<Rightarrow> bool) option \<Rightarrow> ConnectionState
     \<Rightarrow> (IrcBuffer \<times> ConnectionState) described" where
  "addBuffer chan upstreamCon st =
     (let buffer = (case chan of Inl n \<Rightarrow> new_IrcBuffer n upstreamCon | Inr obj \<Rightarrow> fromObj obj)
      in case assign_key (toLowerCase (name buffer)) buffer (buffers st) of
           NotDescribed \<Rightarrow> NotDescribed
         | Described bs \<Rightarrow> Described (buffer, st\<lparr> buffers := bs \<rparr>))"

definition delBuffer :: "string \<Rightarrow> ConnectionState \<Rightarrow> ConnectionState described" where
  "delBuffer n st =
     (case delete_key (toLowerCase n) (buffers st) of
        NotDescribed \<Rightarrow> NotDescribed
      | Described bs \<Rightarrow> Described (st\<lparr> buffers := bs \<rparr>))"

text \<open>
  \<open>renameBuffer(oldName, newName)\<close> returns \<open>undefined\<close> (\<open>None\<close>) when there is no buffer at the
  old name.
\<close>

definition renameBuffer ::
  "string \<Rightarrow> string \<Rightarrow> ConnectionState \<Rightarrow> (IrcBuffer option \<times> ConnectionState) described" where
  "renameBuffer oldName newName st =
     (case getBuffer st oldName of
        NotDescribed \<Rightarrow> NotDescribed
      | Described None \<Rightarrow> Described (None, st)
      | Described (Some oldBuffer) \<Rightarrow>
          (case getBuffer st newName of
             NotDescribed \<Rightarrow> NotDescribed
           | Described (Some newBuffer) \<Rightarrow> Described (Some newBuffer, st)
           | Described None \<Rightarrow>
               (case delete_key (toLowerCase oldName) (buffers st) of
                  NotDescribed \<Rightarrow> NotDescribed
                | Described bs1 \<Rightarrow>
                    (let renamed = oldBuffer\<lparr> name := newName \<rparr>
                     in case assign_key (toLowerCase newName) renamed bs1 of
                          NotDescribed \<Rightarrow> NotDescribed
                        | Described bs2 \<Rightarrow>
                            Described (Some renamed, st\<lparr> buffers := bs2 \<rparr>)))))"

subsection \<open>Persistence: save and load\<close>

text \<open>
  A row of the \<open>connections\<close> table. The columns that \<open>save\<close> fills with \<open>JSON.stringify\<close> and
  \<open>load\<close> reads with \<open>JSON.parse\<close> hold the value itself: a JSON round trip gives back the
  strings, arrays and plain objects it was given. \<open>last_statesave\<close> (the clock at the time
  of the save, never read back) is left out. The column \<open>buffers\<close> holds the properties that
  \<open>for ... in\<close> finds in the parsed value, in the order of the association list (JavaScript
  lists keys that are whole numbers before the others; channel names are not).
\<close>

record row =
  r_conid :: string
  r_bind_host :: string
  r_host :: string
  r_port :: nat
  r_tls :: bool
  r_tlsverify :: bool
  r_type :: nat
  r_account :: string
  r_username :: string
  r_realname :: string
  r_password :: string
  r_connected :: bool
  r_sasl :: sasl_t
  r_server_prefix :: string
  r_registration_lines :: "string list"
  r_isupports :: "string list"
  r_caps :: "string list"
  r_buffers :: "(string \<times> IrcBuffer) list"
  r_nick :: "string option"
  r_received_motd :: bool
  r_net_registered :: bool
  r_auth_user_id :: nat
  r_auth_network_id :: nat
  r_auth_network_name :: string
  r_auth_admin :: bool
  r_linked_con_ids :: "string list"
  r_logging :: bool
  r_temp :: tempData_t

type_synonym database = "string \<rightharpoonup> row"

text \<open>
  \<open>save()\<close>: insert-or-replace of the row keyed by \<open>conId\<close>. \<open>bind_host\<close> is written as \<open>''\<close>.
  \<open>JSON.stringify(this.buffers)\<close> writes the properties of an object, and of an Array the
  elements only: the Array that \<open>load\<close> leaves has none, so it is written as \<open>[]\<close> whatever
  buffers it holds under their names.
\<close>

definition save :: "ConnectionState \<Rightarrow> database \<Rightarrow> database" where
  "save st d =
     d(conId st \<mapsto>
       \<lparr> r_conid = conId st, r_bind_host = [], r_host = host st, r_port = port st,
         r_tls = tls st, r_tlsverify = tlsverify st, r_type = type st,
         r_account = account st, r_username = username st, r_realname = realname st,
         r_password = password st, r_connected = connected st, r_sasl = sasl st,
         r_server_prefix = serverPrefix st, r_registration_lines = registrationLines st,
         r_isupports = isupports st, r_caps = Array_from (caps st),
         r_buffers = (case buffers st of NullProto al \<Rightarrow> al | JSArray al \<Rightarrow> []),
         r_nick = nick st, r_received_motd = receivedMotd st,
         r_net_registered = netRegistered st, r_auth_user_id = authUserId st,
         r_auth_network_id = authNetworkId st, r_auth_network_name = authNetworkName st,
         r_auth_admin = authAdmin st, r_linked_con_ids = linkedIncomingConIds st,
         r_logging = logging st, r_temp = tempData st \<rparr>)"

text \<open>
  \<open>load()\<close>. Without a row the collections are reset, \<open>buffers\<close> to the Array \<open>[]\<close>. With a row
  every field is read back, \<open>buffers\<close> is a fresh \<open>Object.create(null)\<close> and the buffers are
  rebuilt in it with \<open>addBuffer\<close>, one stored object after the other; on that object
  \<open>addBuffer\<close> is described for every name (lemma \<open>addBuffer_NullProto\<close>).
\<close>

definition load :: "ConnectionState \<Rightarrow> database \<Rightarrow> ConnectionState" where
  "load st d =
     (case d (conId st) of
        None \<Rightarrow>
          st\<lparr> registrationLines := [], isupports := [], caps := CapsSet [],
              buffers := JSArray [],
              tempData := \<lparr> capping = None, reg_state = None, reg_queue = None \<rparr>,
              logging := True, loaded := True \<rparr>
      | Some r \<Rightarrow>
          (let st1 = st\<lparr> bindHost := r_bind_host r, host := r_host r, port := r_port r,
                         tls := r_tls r, tlsverify := r_tlsverify r, type := r_type r,
                         sasl := r_sasl r, connected := r_connected r,
                         serverPrefix := r_server_prefix r,
                         registrationLines := r_registration_lines r,
                         isupports := r_isupports r, caps := CapsSet (new_Set (r_caps r)),
                         buffers := NullProto [] \<rparr>;
               st2 = foldl (\<lambda>s (chanName, obj).
                              case addBuffer (Inr obj) None s of
                                Described (buffer, s') \<Rightarrow> s'
                              | NotDescribed \<Rightarrow> s) st1 (r_buffers r)
           in st2\<lparr> nick := r_nick r, account := r_account r, username := r_username r,
                   realname := r_realname r, password := r_password r,
                   receivedMotd := r_received_motd r, netRegistered := r_net_registered r,
                   authUserId := r_auth_user_id r, authNetworkId := r_auth_network_id r,
                   authNetworkName := r_auth_network_name r, authAdmin := r_auth_admin r,
                   linkedIncomingConIds := new_Set (r_linked_con_ids r),
                   logging := r_logging r, tempData := r_temp r, loaded := True \<rparr>))"

definition maybeLoad :: "ConnectionState \<Rightarrow> database \<Rightarrow> ConnectionState" where
  "maybeLoad st d = (if loaded st then st else load st d)"


text \<open>
  The buffer-map invariant: every key is the lower-case form of its buffer's name. The keys
  of a JavaScript object are unique, which the association list states as well.
\<close>

definition buffers_inv :: "(string \<times> IrcBuffer) list \<Rightarrow> bool" where
  "buffers_inv bs =
     (distinct (map fst bs) \<and> list_all (\<lambda>(k, b). k = toLowerCase (name b)) bs)"


section \<open>The downstream state machine (clientcommands.js)\<close>

subsection \<open>Messages, collaborators and effects\<close>

text \<open>
  A parsed IRC message, with the fields the handlers read. \<open>source\<close> is \<open>undefined\<close> on a
  message from the socket and \<open>'queue'\<close> on a replayed one.
\<close>

record msg =
  command :: string
  params :: "string list"
  source :: "string option"

record network =
  net_id :: nat
  net_user_id :: nat
  net_name :: string
  net_host :: string
  net_port :: nat
  net_tls :: bool

record user =
  user_id :: nat

text \<open>
  Calls on objects that live outside the two files (the connection classes, the message
  store, ClientControl, the process) are recorded in the order they are made. An argument
  that may be \<open>undefined\<close> is an option. What such a call does to a connection later on is
  outside this development.
\<close>

datatype event =
    WriteMsg string "string option list"
  | WriteMsgFrom "string option" string "string option list"
  | WriteFromBnc string "string option list"
  | WriteStatus string
  | Close
  | MakeUpstream network
  | RegisterClient
  | RegisterLocalClient
  | UpstreamOpen string
  | UpstreamClose string
  | UpstreamWriteLine string string "string list"
  | ClientWriteMsgFrom string "string option" string "string option list"
  | StoreMessage nat nat msg string
  | ClientControlRun msg
  | ReloadClientCommands
  | StopListeningThenExit

text \<open>
  What the handlers consume from outside: the credential store (\<open>con.userDb\<close>), the
  capability names that the \<open>available_caps\<close> hooks append, and three functions of the
  irc-framework library.
\<close>

record env =
  authUser :: "string \<Rightarrow> string \<Rightarrow> user option"
  authUserNetwork :: "string \<Rightarrow> string \<Rightarrow> string \<Rightarrow> network option"
  getNetworkByName :: "nat \<Rightarrow> string \<Rightarrow> network option"
  getUserNetworks :: "nat \<Rightarrow> network list"
  available_caps :: "string list"
  to1459 :: "msg \<Rightarrow> string"
  ircLineParser :: "string \<Rightarrow> msg option"
  encodeTags :: "(string \<times> string) list \<Rightarrow> string"

text \<open>
  An incoming connection \<open>con\<close> as the handlers see it: its state, the table its state is
  saved to, the states of the outgoing connections in the registry (\<open>con.conDict\<close>), and the
  calls made so far.
\<close>

record con =
  state :: ConnectionState
  db :: database
  conDict :: "ConnectionState list"
  out :: "event list"

datatype error = TypeError

type_synonym 'a result = "(error \<times> con) + ('a \<times> con)"

definition emit :: "event list \<Rightarrow> con \<Rightarrow> con" where
  "emit evs c = c\<lparr> out := out c @ evs \<rparr>"

definition save_state :: "con \<Rightarrow> con" where
  "save_state c = c\<lparr> db := save (state c) (db c) \<rparr>"

text \<open>
  \<open>tempSet(key, val)\<close>: assign or (for \<open>null\<close>) delete the key, then \<open>save()\<close>. The assignment
  is passed as the update of the key's field.
\<close>

definition tempSet :: "(tempData_t \<Rightarrow> tempData_t) \<Rightarrow> con \<Rightarrow> con" where
  "tempSet f c = save_state (c\<lparr> state := (state c)\<lparr> tempData := f (tempData (state c)) \<rparr> \<rparr>)"

text \<open>JavaScript truthiness of a string that may be \<open>undefined\<close>.\<close>

definition truthy :: "string option \<Rightarrow> bool" where
  "truthy v = (case v of None \<Rightarrow> False | Some s \<Rightarrow> s \<noteq> [])"

text \<open>\<open>msg.params[i]\<close>.\<close>

definition param :: "msg \<Rightarrow> nat \<Rightarrow> string option" where
  "param m i = (if i < length (params m) then Some (params m ! i) else None)"

text \<open>
  Modelled from the spec: \<open>mParam\<close> of libs/helpers is not among the sources. The spec reads
  \<open>mParamU(msg, 1, '301')\<close> as "the version or 301": \<open>mParam(msg, idx, def)\<close> is parameter
  \<open>idx\<close> of the message, and the default when that parameter is missing or empty.
\<close>

definition mParam :: "msg \<Rightarrow> nat \<Rightarrow> string \<Rightarrow> string" where
  "mParam m idx def = (if truthy (param m idx) then params m ! idx else def)"

text \<open>
  Modelled from the spec: \<open>mParamU\<close> of libs/helpers is not among the sources. It is \<open>mParam\<close>
  in upper case (the handlers compare it with LS, REQ, END, CONNECT and so on).
\<close>

definition mParamU :: "msg \<Rightarrow> nat \<Rightarrow> string \<Rightarrow> string" where
  "mParamU m idx def = toUpperCase (mParam m idx def)"

text \<open>
  Modelled from the spec: the connection registry is not among the sources.
  \<open>findUsersOutgoingConnection(userId, networkId)\<close> is the lookup of a user's outgoing
  upstream (type 0) for a network; the spec has at most one per pair.
\<close>

definition findUsersOutgoingConnection ::
  "ConnectionState list \<Rightarrow> nat \<Rightarrow> nat \<Rightarrow> ConnectionState option" where
  "findUsersOutgoingConnection cd userId networkId =
     List.find (\<lambda>s. type s = 0 \<and> authUserId s = userId \<and> authNetworkId s = networkId) cd"

text \<open>
  Modelled from the spec: the class of \<open>con\<close> is not among the sources. \<open>con.upstream\<close> is the
  registry's answer for the connection's own \<open>authUserId\<close> and \<open>authNetworkId\<close> (spec 4.3).
\<close>

definition upstream :: "con \<Rightarrow> ConnectionState option" where
  "upstream c =
     findUsersOutgoingConnection (conDict c) (authUserId (state c)) (authNetworkId (state c))"

text \<open>
  Modelled from the spec: the class of the upstream connection is not among the sources.
  \<open>forEachClient(f, exclude)\<close> iterates \<open>linkedIncomingConIds\<close> skipping \<open>exclude\<close> (spec 4.5);
  the result is the list of the clients that \<open>f\<close> is applied to, in order.
\<close>

definition forEachClient :: "ConnectionState \<Rightarrow> string \<Rightarrow> string list" where
  "forEachClient u exclude = filter (\<lambda>i. i \<noteq> exclude) (linkedIncomingConIds u)"

text \<open>An outgoing connection's state changed in place: its entry in the registry is replaced.\<close>

definition set_upstream_state :: "ConnectionState \<Rightarrow> con \<Rightarrow> con" where
  "set_upstream_state u c =
     c\<lparr> conDict := map (\<lambda>s. if conId s = conId u then u else s) (conDict c) \<rparr>"

text \<open>
  The BOUNCER handler reads \<open>upstream.state.channels\<close> and calls \<open>upstream.state.getChannel\<close>
  and \<open>upstream.state.delChannel\<close>. ConnectionState has no member of these names (it has
  \<open>buffers\<close>, \<open>getBuffer\<close> and \<open>delBuffer\<close>), so each of them is \<open>undefined\<close>, written \<open>None\<close>:
  \<open>for (... in undefined)\<close> runs its body for no key, and a call of \<open>undefined\<close> is a TypeError.
\<close>

definition channels :: "ConnectionState \<Rightarrow> (string \<times> IrcBuffer) list option" where
  "channels st = None"

definition getChannel :: "(ConnectionState \<Rightarrow> string \<Rightarrow> IrcBuffer option) option" where
  "getChannel = None"

definition delChannel :: "(string \<Rightarrow> ConnectionState \<Rightarrow> ConnectionState) option" where
  "delChannel = None"

text \<open>Array methods on \<open>caps\<close>: defined on an array only.\<close>

fun caps_join :: "caps_t \<Rightarrow> string \<Rightarrow> string option" where
  "caps_join (CapsArray xs) sep = Some (join sep xs)"
| "caps_join (CapsSet xs) sep = None"

fun caps_concat :: "caps_t \<Rightarrow> string list \<Rightarrow> caps_t option" where
  "caps_concat (CapsArray xs) ys = Some (CapsArray (xs @ ys))"
| "caps_concat (CapsSet xs) ys = None"

subsection \<open>The PASS triple\<close>

text \<open>
  \<open>regState.pass.match(/([^\/:]+)(?:\/([^:]+))?(?::(.*))?/)\<close>. The pattern is not anchored:
  the match starts at the first character that is neither \<open>/\<close> nor \<open>:\<close>, and fails only when
  there is none. Group 1 is the longest run without \<open>/\<close> and \<open>:\<close>; group 2, after a \<open>/\<close>, the
  longest non-empty run without \<open>:\<close>; group 3, after a \<open>:\<close>, the rest of the line. A group that
  does not take part is \<open>undefined\<close>.
\<close>

definition pass_match :: "string \<Rightarrow> (string \<times> string option \<times> string option) option" where
  "pass_match s =
     (let notSep = (\<lambda>c. c \<noteq> CHR ''/'' \<and> c \<noteq> CHR '':'');
          s1 = dropWhile (\<lambda>c. \<not> notSep c) s
      in if s1 = [] then None
         else
           (let m1 = takeWhile notSep s1;
                r1 = dropWhile notSep s1;
                (m2, r2) =
                  (case r1 of
                     [] \<Rightarrow> (None, r1)
                   | c # t \<Rightarrow>
                       if c = CHR ''/'' \<and> takeWhile (\<lambda>c. c \<noteq> CHR '':'') t \<noteq> []
                       then (Some (takeWhile (\<lambda>c. c \<noteq> CHR '':'') t),
                             dropWhile (\<lambda>c. c \<noteq> CHR '':'') t)
                       else (None, r1));
                m3 =
                  (case r2 of
                     [] \<Rightarrow> None
                   | c # t \<Rightarrow>
                       if c = CHR '':''
                       then Some (takeWhile (\<lambda>c. c \<noteq> CHR 0x0A \<and> c \<noteq> CHR 0x0D) t)
                       else None)
            in Some (m1, m2, m3)))"

text \<open>\<open>m[i] || ''\<close>.\<close>

definition or_empty :: "string option \<Rightarrow> string" where
  "or_empty v = (case v of None \<Rightarrow> [] | Some s \<Rightarrow> s)"

subsection \<open>Registration\<close>

definition invalid_password :: "con \<Rightarrow> con" where
  "invalid_password c = emit [WriteMsg ''ERROR'' [Some ''Invalid password''], Close] c"

text \<open>
  \<open>maybeProcessRegistration(con)\<close>. Reading \<open>regState.nick\<close> when \<open>reg.state\<close> is absent is a
  TypeError. A bare \<open>return\<close> gives \<open>undefined\<close>, which is falsy like \<open>false\<close>: both are \<open>False\<close>.
\<close>

definition maybeProcessRegistration :: "env \<Rightarrow> con \<Rightarrow> bool result" where
  "maybeProcessRegistration e c =
     (case reg_state (tempData (state c)) of
        None \<Rightarrow> Inl (TypeError, c)
      | Some regState \<Rightarrow>
          if reg_nick regState = [] \<or> reg_user regState = [] \<or> reg_pass regState = [] \<or>
             truthy (capping (tempData (state c)))
          then Inr (False, c)
          else
            (case pass_match (reg_pass regState) of
               None \<Rightarrow> Inr (False, invalid_password c)
             | Some (m1, m2, m3) \<Rightarrow>
                 (let username = m1; networkName = or_empty m2; password = or_empty m3;
                      auth =
                        (if networkName \<noteq> [] then
                           (case authUserNetwork e username password networkName of
                              None \<Rightarrow> None
                            | Some network \<Rightarrow>
                                Some (Some network,
                                      c\<lparr> state := (state c)\<lparr> authUserId := net_user_id network,
                                                             authNetworkId := net_id network \<rparr> \<rparr>))
                         else
                           (case authUser e username password of
                              None \<Rightarrow> None
                            | Some u \<Rightarrow>
                                Some (None, c\<lparr> state := (state c)\<lparr> authUserId := user_id u \<rparr> \<rparr>)))
                  in case auth of
                       None \<Rightarrow> Inr (False, invalid_password c)
                     | Some (network, c1) \<Rightarrow>
                         (let c2 = save_state c1 in
                          if truthy (capping (tempData (state c2))) then Inr (False, c2)
                          else
                            (let c3 =
                               (case network of
                                  Some net \<Rightarrow>
                                    (case upstream c2 of
                                       None \<Rightarrow>
                                         emit [MakeUpstream net,
                                               WriteStatus ''Connecting to the network..''] c2
                                     | Some u \<Rightarrow>
                                         if \<not> connected u then
                                           emit [WriteStatus ''Connecting to the network..'',
                                                 UpstreamOpen (conId u)] c2
                                         else if netRegistered u then
                                           emit [WriteStatus ''Attaching you to the network'',
                                                 RegisterClient] c2
                                         else emit [WriteStatus ''Attaching you to the network''] c2)
                                | None \<Rightarrow>
                                    emit [WriteStatus ''Welcome to your BNC!'', RegisterLocalClient] c2)
                             in Inr (False, tempSet (\<lambda>t. t\<lparr> reg_state := None \<rparr>) c3))))))"

subsection \<open>Handlers that do not recurse\<close>

definition commands_PASS :: "env \<Rightarrow> msg \<Rightarrow> con \<Rightarrow> bool result" where
  "commands_PASS e m c =
     (if authUserId (state c) \<noteq> 0 then Inr (False, c)
      else
        (case reg_state (tempData (state c)) of
           None \<Rightarrow> Inl (TypeError, c)
         | Some regState \<Rightarrow>
             Inr (False,
                  tempSet (\<lambda>t. t\<lparr> reg_state := Some (regState\<lparr> reg_pass := mParam m 0 [] \<rparr>) \<rparr>) c)))"

definition commands_USER :: "env \<Rightarrow> msg \<Rightarrow> con \<Rightarrow> bool result" where
  "commands_USER e m c =
     (case reg_state (tempData (state c)) of
        None \<Rightarrow> Inr (False, c)
      | Some regState \<Rightarrow>
          Inr (False,
               tempSet (\<lambda>t. t\<lparr> reg_state := Some (regState\<lparr> reg_user := mParam m 0 [] \<rparr>) \<rparr>) c))"

text \<open>The echo of PRIVMSG and NOTICE to the other clients of the upstream.\<close>

definition echo_to_siblings :: "string \<Rightarrow> msg \<Rightarrow> con \<Rightarrow> con" where
  "echo_to_siblings verb m c =
     (case upstream c of
        None \<Rightarrow> c
      | Some u \<Rightarrow>
          emit (map (\<lambda>client. ClientWriteMsgFrom client (nick u) verb [param m 0, param m 1])
                    (forEachClient u (conId (state c)))) c)"

definition store_message :: "msg \<Rightarrow> con \<Rightarrow> con" where
  "store_message m c =
     (case upstream c of
        None \<Rightarrow> c
      | Some u \<Rightarrow> emit [StoreMessage (authUserId u) (authNetworkId u) m (conId u)] c)"

definition commands_NOTICE :: "env \<Rightarrow> msg \<Rightarrow> con \<Rightarrow> bool result" where
  "commands_NOTICE e m c = Inr (False, store_message m (echo_to_siblings ''NOTICE'' m c))"

definition commands_PRIVMSG :: "env \<Rightarrow> msg \<Rightarrow> con \<Rightarrow> bool result" where
  "commands_PRIVMSG e m c =
     (let c1 = echo_to_siblings ''PRIVMSG'' m c in
      if param m 0 = Some ''*bnc'' \<and> authUserId (state c1) \<noteq> 0
      then Inr (False, emit [ClientControlRun m] c1)
      else Inr (True, store_message m c1))"

definition commands_NICK :: "env \<Rightarrow> msg \<Rightarrow> con \<Rightarrow> bool result" where
  "commands_NICK e m c =
     (if (case upstream c of None \<Rightarrow> False | Some u \<Rightarrow> \<not> netRegistered u) then Inr (False, c)
      else if \<not> netRegistered (state c) then
        (let c1 = save_state (c\<lparr> state := (state c)\<lparr> nick := param m 0 \<rparr> \<rparr>);
             n = nick (state c1);
             c2 = emit [WriteMsgFrom n ''NICK'' [n]] c1;
             c3 = (case reg_state (tempData (state c2)) of
                     None \<Rightarrow> c2
                   | Some regState \<Rightarrow>
                       tempSet (\<lambda>t. t\<lparr> reg_state :=
                                        Some (regState\<lparr> reg_nick := mParam m 0 [] \<rparr>) \<rparr>) c2)
         in Inr (False,
                 emit [WriteMsgFrom (Some ''bnc'') ''464'' [n, Some ''Password required''],
                       WriteFromBnc ''NOTICE''
                         [n, Some ''You must send your password first. /quote PASS <username>/<network>:<password>'']]
                      c3))
      else Inr (True, c))"

definition commands_PING :: "env \<Rightarrow> msg \<Rightarrow> con \<Rightarrow> bool result" where
  "commands_PING e m c = Inr (False, emit [WriteMsg ''PONG'' [param m 0]] c)"

definition commands_QUIT :: "env \<Rightarrow> msg \<Rightarrow> con \<Rightarrow> bool result" where
  "commands_QUIT e m c = Inr (False, emit [Close] c)"

definition commands_KILL :: "env \<Rightarrow> msg \<Rightarrow> con \<Rightarrow> bool result" where
  "commands_KILL e m c = Inr (False, emit [StopListeningThenExit] c)"

definition commands_RELOAD :: "env \<Rightarrow> msg \<Rightarrow> con \<Rightarrow> bool result" where
  "commands_RELOAD e m c = Inr (False, emit [ReloadClientCommands] c)"

text \<open>DEB only writes to the process log.\<close>

definition commands_DEB :: "env \<Rightarrow> msg \<Rightarrow> con \<Rightarrow> bool result" where
  "commands_DEB e m c = Inr (False, c)"

subsection \<open>The BOUNCER verb\<close>

definition strs :: "string list \<Rightarrow> string option list" where
  "strs xs = map Some xs"

definition BOUNCER_CONNECT :: "env \<Rightarrow> msg \<Rightarrow> con \<Rightarrow> bool result" where
  "BOUNCER_CONNECT e m c =
     (let netName = mParam m 1 [] in
      if netName = [] then
        Inr (False, emit [WriteMsg ''BOUNCER'' (strs [''connect'', ''*'', ''ERR_INVALIDARGS''])] c)
      else
        (case getNetworkByName e (authUserId (state c)) netName of
           None \<Rightarrow>
             Inr (False, emit [WriteMsg ''BOUNCER'' (strs [''connect'', ''*'', ''ERR_NETNOTFOUND''])] c)
         | Some network \<Rightarrow>
             (case findUsersOutgoingConnection (conDict c) (authUserId (state c)) (net_id network) of
                Some u \<Rightarrow>
                  if \<not> connected u then Inr (False, emit [UpstreamOpen (conId u)] c)
                  else Inr (False, c)
              | None \<Rightarrow> Inr (False, emit [MakeUpstream network] c))))"

definition BOUNCER_DISCONNECT :: "env \<Rightarrow> msg \<Rightarrow> con \<Rightarrow> bool result" where
  "BOUNCER_DISCONNECT e m c =
     (let netName = mParam m 1 [] in
      if netName = [] then
        Inr (False, emit [WriteMsg ''BOUNCER'' (strs [''disconnect'', ''*'', ''ERR_INVALIDARGS''])] c)
      else
        (case getNetworkByName e (authUserId (state c)) netName of
           None \<Rightarrow>
             Inr (False,
                  emit [WriteMsg ''BOUNCER'' (strs [''disconnect'', ''*'', ''ERR_NETNOTFOUND''])] c)
         | Some network \<Rightarrow>
             (case findUsersOutgoingConnection (conDict c) (authUserId (state c)) (net_id network) of
                Some u \<Rightarrow>
                  if connected u then Inr (False, emit [UpstreamClose (conId u)] c)
                  else Inr (False, c)
              | None \<Rightarrow> Inr (False, c))))"

text \<open>
  The tag pairs of one network. The fourth part is \<open>'tls=' + net.tls ? '1' : '0'\<close>: the
  concatenation is the condition of the conditional, as JavaScript's precedence has it.
\<close>

definition js_string_of_bool :: "bool \<Rightarrow> string" where
  "js_string_of_bool b = (if b then ''true'' else ''false'')"

definition listnetworks_parts :: "con \<Rightarrow> network \<Rightarrow> string list" where
  "listnetworks_parts c net =
     [''network='' @ net_name net,
      ''host='' @ net_host net,
      ''port='' @ digits (net_port net),
      (if ''tls='' @ js_string_of_bool (net_tls net) \<noteq> [] then ''1'' else ''0''),
      ''host='' @ net_host net,
      (case findUsersOutgoingConnection (conDict c) (authUserId (state c)) (net_id net) of
         Some netCon \<Rightarrow> ''state='' @ (if connected netCon then ''connected'' else ''disconnected'')
       | None \<Rightarrow> ''state=disconnect'')]"

definition BOUNCER_LISTNETWORKS :: "env \<Rightarrow> msg \<Rightarrow> con \<Rightarrow> bool result" where
  "BOUNCER_LISTNETWORKS e m c =
     (let nets = getUserNetworks e (authUserId (state c)) in
      Inr (False,
           emit (map (\<lambda>net. WriteMsg ''BOUNCER''
                               (strs [''listnetworks'', join '';'' (listnetworks_parts c net)])) nets
                 @ [WriteMsg ''BOUNCER'' (strs [''listnetwork'', ''RPL_OK''])]) c))"

definition BOUNCER_LISTBUFFERS :: "env \<Rightarrow> msg \<Rightarrow> con \<Rightarrow> bool result" where
  "BOUNCER_LISTBUFFERS e m c =
     (let netName = mParam m 1 [] in
      if netName = [] then
        Inr (False,
             emit [WriteMsg ''BOUNCER'' (strs [''listbuffers'', ''*'', ''ERR_INVALIDARGS''])] c)
      else
        (case getNetworkByName e (authUserId (state c)) netName of
           None \<Rightarrow>
             Inr (False,
                  emit [WriteMsg ''BOUNCER'' (strs [''listbuffers'', ''*'', ''ERR_NETNOTFOUND''])] c)
         | Some network \<Rightarrow>
             (let listed =
                (case findUsersOutgoingConnection (conDict c) (authUserId (state c)) (net_id network) of
                   None \<Rightarrow> []
                 | Some u \<Rightarrow>
                     map (\<lambda>(chanName, buffer).
                            WriteMsg ''BOUNCER''
                              (strs [''listbuffers'', net_name network,
                                     encodeTags e [(''network'', net_name network),
                                                   (''buffer'', name buffer),
                                                   (''joined'', if joined buffer then ''1'' else ''0''),
                                                   (''topic'', topic buffer)]]))
                         (case channels u of None \<Rightarrow> [] | Some chans \<Rightarrow> chans))
              in Inr (False,
                      emit (listed @
                            [WriteMsg ''BOUNCER''
                               (strs [''listbuffers'', net_name network, ''RPL_OK''])]) c))))"

text \<open>
  DELBUFFER. With an upstream in the registry the handler calls \<open>upstream.state.getChannel\<close>,
  which is \<open>undefined\<close>: a TypeError before anything is written. The lines after that call
  are kept as they are written: when the buffer is not found they write \<open>RPL_OK\<close> and go on
  to \<open>upstream.state.delChannel(buffer.name)\<close>, and reading \<open>name\<close> of \<open>undefined\<close> is a
  TypeError as well.
\<close>

definition BOUNCER_DELBUFFER :: "env \<Rightarrow> msg \<Rightarrow> con \<Rightarrow> bool result" where
  "BOUNCER_DELBUFFER e m c =
     (let netName = mParam m 1 []; bufferName = mParam m 2 [] in
      if netName = [] \<or> bufferName = [] then
        Inr (False, emit [WriteMsg ''BOUNCER'' (strs [''delbuffer'', ''*'', ''ERR_INVALIDARGS''])] c)
      else
        (case getNetworkByName e (authUserId (state c)) netName of
           None \<Rightarrow>
             Inr (False,
                  emit [WriteMsg ''BOUNCER'' (strs [''delbuffer'', ''*'', ''ERR_NETNOTFOUND''])] c)
         | Some network \<Rightarrow>
             (let ok = WriteMsg ''BOUNCER''
                         (strs [''delbuffer'', net_name network, bufferName, ''RPL_OK''])
              in case findUsersOutgoingConnection (conDict c) (authUserId (state c))
                        (net_id network) of
                   None \<Rightarrow> Inr (False, emit [ok] c)
                 | Some u \<Rightarrow>
                     (case getChannel of
                        None \<Rightarrow> Inl (TypeError, c)
                      | Some getChannel_fn \<Rightarrow>
                          (case getChannel_fn u bufferName of
                             None \<Rightarrow> Inl (TypeError, emit [ok] c)
                           | Some buffer \<Rightarrow>
                               (case delChannel of
                                  None \<Rightarrow> Inl (TypeError, c)
                                | Some delChannel_fn \<Rightarrow>
                                    (let c1 = set_upstream_state (delChannel_fn (name buffer) u) c;
                                         c2 = (if joined buffer
                                               then emit [UpstreamWriteLine (conId u) ''PART''
                                                            [name buffer]] c1
                                               else c1)
                                     in Inr (False, emit [ok] c2))))))))"

definition commands_BOUNCER :: "env \<Rightarrow> msg \<Rightarrow> con \<Rightarrow> bool result" where
  "commands_BOUNCER e m c =
     (let subCmd = mParamU m 0 [] in
      if subCmd = ''CONNECT'' then BOUNCER_CONNECT e m c
      else if subCmd = ''DISCONNECT'' then BOUNCER_DISCONNECT e m c
      else if subCmd = ''LISTNETWORKS'' then BOUNCER_LISTNETWORKS e m c
      else if subCmd = ''LISTBUFFERS'' then BOUNCER_LISTBUFFERS e m c
      else if subCmd = ''DELBUFFER'' then BOUNCER_DELBUFFER e m c
      else Inr (False, c))"

subsection \<open>The verb table, CAP, the queue and run\<close>

text \<open>
  The table \<open>commands\<close> without its entry CAP, which is defined with \<open>run\<close> below because
  \<open>CAP END\<close> replays the queue through \<open>run\<close>.
\<close>

definition commands :: "string \<Rightarrow> (env \<Rightarrow> msg \<Rightarrow> con \<Rightarrow> bool result) option" where
  "commands verb =
     (if verb = ''PASS'' then Some commands_PASS
      else if verb = ''USER'' then Some commands_USER
      else if verb = ''NOTICE'' then Some commands_NOTICE
      else if verb = ''PRIVMSG'' then Some commands_PRIVMSG
      else if verb = ''NICK'' then Some commands_NICK
      else if verb = ''PING'' then Some commands_PING
      else if verb = ''QUIT'' then Some commands_QUIT
      else if verb = ''BOUNCER'' then Some commands_BOUNCER
      else if verb = ''KILL'' then Some commands_KILL
      else if verb = ''RELOAD'' then Some commands_RELOAD
      else if verb = ''DEB'' then Some commands_DEB
      else None)"

text \<open>The part of the CAP handler before \<open>END\<close>: LIST, LS and REQ.\<close>

definition CAP_LIST_LS_REQ :: "env \<Rightarrow> msg \<Rightarrow> con \<Rightarrow> unit result" where
  "CAP_LIST_LS_REQ e m c =
     (let availableCaps = available_caps e; sub = mParamU m 0 [] in
      if sub = ''LIST'' then
        (case caps_join (caps (state c)) '' '' of
           None \<Rightarrow> Inl (TypeError, c)
         | Some joined_caps \<Rightarrow>
             Inr ((), emit [WriteMsg ''CAP'' (strs [''*'', ''LIST'', joined_caps])] c))
      else if sub = ''LS'' then
        (let c1 = tempSet (\<lambda>t. t\<lparr> capping := Some (mParamU m 1 ''301'') \<rparr>) c in
         Inr ((), emit [WriteMsg ''CAP'' (strs [''*'', ''LS'', join '' '' availableCaps])] c1))
      else if sub = ''REQ'' then
        (let requested = split_space (mParam m 1 []);
             matched = filter (\<lambda>cap. cap \<in> set availableCaps) requested
         in case caps_concat (caps (state c)) matched of
              None \<Rightarrow> Inl (TypeError, c)
            | Some new_caps \<Rightarrow>
                (let c1 = save_state (c\<lparr> state := (state c)\<lparr> caps := new_caps \<rparr> \<rparr>) in
                 Inr ((), emit [WriteMsg ''CAP'' (strs [''*'', ''ACK'', join '' '' matched])] c1)))
      else Inr ((), c))"

text \<open>\<open>con.state.tempGet('reg.queue') || []\<close>.\<close>

definition messageQueue :: "con \<Rightarrow> string list" where
  "messageQueue c = (case reg_queue (tempData (state c)) of None \<Rightarrow> [] | Some q \<Rightarrow> q)"

definition preRegisterCommands :: "string list" where
  "preRegisterCommands = [''USER'', ''NICK'', ''PASS'', ''CAP'']"

text \<open>
  \<open>run\<close>, \<open>commands.CAP\<close> and \<open>processConQueue\<close> call each other. The first argument after the
  environment is fuel: each pass of the loop of \<open>processConQueue\<close> uses one unit, and \<open>None\<close>
  is a computation that ran out of it. \<open>call\<close> is the application \<open>commands[command](msg, con)\<close>.
\<close>

fun run :: "env \<Rightarrow> nat \<Rightarrow> msg \<Rightarrow> con \<Rightarrow> bool result option"
and call :: "env \<Rightarrow> nat \<Rightarrow> string \<Rightarrow> msg \<Rightarrow> con \<Rightarrow> bool result option"
and commands_CAP :: "env \<Rightarrow> nat \<Rightarrow> msg \<Rightarrow> con \<Rightarrow> bool result option"
and processConQueue :: "env \<Rightarrow> nat \<Rightarrow> con \<Rightarrow> unit result option"
where
  "run e n m c =
     (let verb = toUpperCase (command m) in
      if verb = ''DEB'' \<or> verb = ''RELOAD'' \<or> verb = ''PING'' then call e n verb m c
      else if truthy (capping (tempData (state c))) \<and> verb \<noteq> ''CAP'' \<and> source m \<noteq> Some ''queue''
      then
        Some (Inr (False, tempSet (\<lambda>t. t\<lparr> reg_queue := Some (messageQueue c @ [to1459 e m]) \<rparr>) c))
      else if \<not> netRegistered (state c) then
        (if verb \<notin> set preRegisterCommands then Some (Inr (False, c))
         else
           (let c1 = (case reg_state (tempData (state c)) of
                        None \<Rightarrow> tempSet (\<lambda>t. t\<lparr> reg_state :=
                                  Some \<lparr> reg_nick = [], reg_user = [], reg_pass = [] \<rparr> \<rparr>) c
                      | Some regState \<Rightarrow> c)
            in case call e n verb m c1 of
                 None \<Rightarrow> None
               | Some (Inl err) \<Rightarrow> Some (Inl err)
               | Some (Inr (r, c2)) \<Rightarrow>
                   (case maybeProcessRegistration e c2 of
                      Inl err \<Rightarrow> Some (Inl err)
                    | Inr (r', c3) \<Rightarrow> Some (Inr (False, c3)))))
      else if verb = ''CAP'' \<or> commands verb \<noteq> None then call e n verb m c
      else Some (Inr (True, c)))"
| "call e n verb m c =
     (if verb = ''CAP'' then commands_CAP e n m c
      else (case commands verb of
              None \<Rightarrow> Some (Inl (TypeError, c))
            | Some handler \<Rightarrow> Some (handler e m c)))"
| "commands_CAP e n m c =
     (case CAP_LIST_LS_REQ e m c of
        Inl err \<Rightarrow> Some (Inl err)
      | Inr (u, c1) \<Rightarrow>
          if mParamU m 0 [] = ''END'' then
            (case processConQueue e n c1 of
               None \<Rightarrow> None
             | Some (Inl err) \<Rightarrow> Some (Inl err)
             | Some (Inr (u', c2)) \<Rightarrow>
                 Some (Inr (False, tempSet (\<lambda>t. t\<lparr> capping := None \<rparr>) c2)))
          else Some (Inr (False, c1)))"
| "processConQueue e 0 c = None"
| "processConQueue e (Suc k) c =
     (case messageQueue c of
        [] \<Rightarrow> Some (Inr ((), tempSet (\<lambda>t. t\<lparr> reg_queue := None \<rparr>) c))
      | line # rest \<Rightarrow>
          (let c1 = tempSet (\<lambda>t. t\<lparr> reg_queue := Some rest \<rparr>) c in
           case (if line = [] then None else ircLineParser e line) of
             None \<Rightarrow> processConQueue e k c1
           | Some parsed \<Rightarrow>
               (case run e k (parsed\<lparr> source := Some ''queue'' \<rparr>) c1 of
                  None \<Rightarrow> None
                | Some (Inl err) \<Rightarrow> Some (Inl err)
                | Some (Inr (r, c2)) \<Rightarrow> processConQueue e k c2)))"

subsection \<open>The replay of the queue, as the specification words it\<close>

text \<open>
  On CAP END every queued line is parsed again and dispatched through \<open>run\<close> with
  \<open>source = 'queue'\<close>, one after the other in arrival order; while a line is dispatched the
  queue holds the lines after it. A line that is empty or does not parse cannot be
  dispatched and is passed over.
\<close>

fun replayQueue :: "env \<Rightarrow> nat \<Rightarrow> string list \<Rightarrow> con \<Rightarrow> unit result option" where
  "replayQueue e n [] c = Some (Inr ((), c))"
| "replayQueue e n (line # rest) c =
     (let c1 = tempSet (\<lambda>t. t\<lparr> reg_queue := Some rest \<rparr>) c in
      case (if line = [] then None else ircLineParser e line) of
        None \<Rightarrow> replayQueue e n rest c1
      | Some parsed \<Rightarrow>
          (case run e n (parsed\<lparr> source := Some ''queue'' \<rparr>) c1 of
             None \<Rightarrow> None
           | Some (Inl err) \<Rightarrow> Some (Inl err)
           | Some (Inr (r, c2)) \<Rightarrow> replayQueue e n rest c2))"

text \<open>
  A line as the CAP gate stores it: the gate never queues a CAP message, so the line does
  not parse to one.
\<close>

definition queued_line :: "env \<Rightarrow> string \<Rightarrow> bool" where
  "queued_line e line =
     (case ircLineParser e line of
        None \<Rightarrow> True
      | Some parsed \<Rightarrow> toUpperCase (command parsed) \<noteq> ''CAP'')"

text \<open>The two keys of \<open>tempData\<close> that the CAP gate and the replay read.\<close>

definition gate_keys :: "con \<Rightarrow> string list option \<times> string option" where
  "gate_keys c = (reg_queue (tempData (state c)), capping (tempData (state c)))"

subsection \<open>A small world for the worked examples\<close>

text \<open>
  One user (id 4) with one network (id 9), two capability names, and stand-ins for the
  library's parser and serialiser that split and join at single spaces.
\<close>

definition freenode :: network where
  "freenode =
     \<lparr> net_id = 9, net_user_id = 4, net_name = ''freenode'', net_host = ''irc.freenode.net'',
       net_port = 6667, net_tls = False \<rparr>"

definition example_env :: env where
  "example_env =
     \<lparr> authUser = (\<lambda>u p. if u = ''alice'' \<and> p = ''s3cret'' then Some \<lparr> user_id = 4 \<rparr> else None),
       authUserNetwork =
         (\<lambda>u p n. if u = ''alice'' \<and> p = ''s3cret'' \<and> n = ''freenode'' then Some freenode else None),
       getNetworkByName = (\<lambda>uid n. if uid = 4 \<and> n = ''freenode'' then Some freenode else None),
       getUserNetworks = (\<lambda>uid. if uid = 4 then [freenode] else []),
       available_caps = [''server-time'', ''batch''],
       to1459 = (\<lambda>m. join '' '' (command m # params m)),
       ircLineParser =
         (\<lambda>line. case split_space line of
                    [] \<Rightarrow> None
                  | w # ws \<Rightarrow> if w = [] then None
                              else Some \<lparr> command = w, params = ws, source = None \<rparr>),
       encodeTags = (\<lambda>tags. join '';'' (map (\<lambda>(k, v). k @ ''='' @ v) tags)) \<rparr>"

text \<open>A client that has just connected, and the upstream of user 4 on network 9.\<close>

definition example_con :: con where
  "example_con = \<lparr> state = new_ConnectionState ''c1'', db = Map.empty, conDict = [], out = [] \<rparr>"

definition example_upstream :: ConnectionState where
  "example_upstream =
     (new_ConnectionState ''u1'')
       \<lparr> authUserId := 4, authNetworkId := 9, connected := True, netRegistered := True,
         nick := Some ''alice'', linkedIncomingConIds := [''c1'', ''c2''],
         buffers := NullProto
                      [(''#a'', (new_IrcBuffer ''#a'' None)\<lparr> joined := True, topic := ''t'' \<rparr>)] \<rparr>"

text \<open>The same client after it has logged in to network 9, with the upstream in the registry.\<close>

definition example_attached :: con where
  "example_attached =
     \<lparr> state = (new_ConnectionState ''c1'')
                 \<lparr> netRegistered := True, authUserId := 4, authNetworkId := 9 \<rparr>,
       db = Map.empty, conDict = [example_upstream], out = [] \<rparr>"

text \<open>
  The client in the middle of CAP negotiation, with two lines held back, and the client
  that has sent NICK, USER and a PASS that no account matches.
\<close>

definition example_capping :: con where
  "example_capping =
     example_con\<lparr> state := (state example_con)\<lparr> tempData :=
       \<lparr> capping = Some ''302'', reg_state = None,
         reg_queue = Some [''NICK bob'', ''JOIN #foo''] \<rparr> \<rparr> \<rparr>"

definition example_bad_password :: con where
  "example_bad_password =
     example_con\<lparr> state := (state example_con)\<lparr> tempData :=
       \<lparr> capping = None,
         reg_state = Some \<lparr> reg_nick = ''n'', reg_user = ''u'', reg_pass = ''xxx'' \<rparr>,
         reg_queue = None \<rparr> \<rparr> \<rparr>"


definition example_saved :: ConnectionState where
  "example_saved =
     example_upstream
       \<lparr> bindHost := ''192.0.2.7'',
         buffers := NullProto
                      [(''#a'', (new_IrcBuffer ''#a'' None)
                                  \<lparr> joined := True, topic := ''t'', lastSeen := 1573000000 \<rparr>)] \<rparr>"

text \<open>
  The attached client in a second CAP negotiation (a registered client may send \<open>CAP LS\<close>
  again), with two lines held back by the gate.
\<close>

definition example_draining :: con where
  "example_draining =
     example_attached\<lparr> state := (state example_attached)\<lparr> tempData :=
       \<lparr> capping = Some ''302'', reg_state = None,
         reg_queue = Some [''BOUNCER DELBUFFER freenode #a'', ''PRIVMSG #x hi''] \<rparr> \<rparr> \<rparr>"

text \<open>A connection that found no row when it was loaded.\<close>

definition example_fresh :: ConnectionState where
  "example_fresh = load (new_ConnectionState ''u2'') Map.empty"

section \<open>Properties\<close>

declare run.simps [simp del] call.simps [simp del] commands_CAP.simps [simp del]

subsection \<open>Frame facts\<close>

lemma state_emit [simp]: "state (emit evs c) = state c"
  by (simp add: emit_def)

lemma state_save_state [simp]: "state (save_state c) = state c"
  by (simp add: save_state_def)

lemma state_tempSet [simp]:
  "state (tempSet f c) = (state c)\<lparr> tempData := f (tempData (state c)) \<rparr>"
  by (simp add: tempSet_def)

lemma state_set_upstream_state [simp]: "state (set_upstream_state u c) = state c"
  by (simp add: set_upstream_state_def)

lemma maybeProcessRegistration_gate_keys:
  "maybeProcessRegistration e c = Inr (r, c') \<Longrightarrow> gate_keys c' = gate_keys c"
  by (auto simp: maybeProcessRegistration_def gate_keys_def invalid_password_def Let_def
           split: option.splits if_splits)

lemma commands_gate_keys:
  "commands verb = Some handler \<Longrightarrow> handler e m c = Inr (r, c') \<Longrightarrow> gate_keys c' = gate_keys c"
  unfolding commands_def
  by (auto simp: gate_keys_def commands_PASS_def commands_USER_def commands_NOTICE_def
        commands_PRIVMSG_def commands_NICK_def commands_PING_def commands_QUIT_def
        commands_BOUNCER_def commands_KILL_def commands_RELOAD_def commands_DEB_def
        BOUNCER_CONNECT_def BOUNCER_DISCONNECT_def BOUNCER_LISTNETWORKS_def
        BOUNCER_LISTBUFFERS_def BOUNCER_DELBUFFER_def channels_def getChannel_def
        store_message_def echo_to_siblings_def Let_def
      split: option.splits if_splits)

lemma call_not_CAP:
  "verb \<noteq> ''CAP'' \<Longrightarrow>
     call e n verb m c =
       (case commands verb of None \<Rightarrow> Some (Inl (TypeError, c)) | Some handler \<Rightarrow> Some (handler e m c))"
  by (simp add: call.simps)

lemma run_not_CAP_fuel:
  "toUpperCase (command m) \<noteq> ''CAP'' \<Longrightarrow> run e n m c = run e n' m c"
  by (simp add: run.simps call_not_CAP Let_def)

lemma run_not_CAP_Some:
  "toUpperCase (command m) \<noteq> ''CAP'' \<Longrightarrow> run e n m c \<noteq> None"
  by (auto simp: run.simps call_not_CAP Let_def split: option.splits sum.splits)

subsection \<open>The dispatch rules of run, one equation each\<close>

lemma run_unconditional:
  "toUpperCase (command m) = ''DEB'' \<or> toUpperCase (command m) = ''RELOAD'' \<or>
   toUpperCase (command m) = ''PING'' \<Longrightarrow>
   run e n m c = call e n (toUpperCase (command m)) m c"
  by (simp add: run.simps Let_def)

lemma run_cap_gate:
  "\<not> (toUpperCase (command m) = ''DEB'' \<or> toUpperCase (command m) = ''RELOAD'' \<or>
      toUpperCase (command m) = ''PING'') \<Longrightarrow>
   truthy (capping (tempData (state c))) \<and> toUpperCase (command m) \<noteq> ''CAP'' \<and>
     source m \<noteq> Some ''queue'' \<Longrightarrow>
   run e n m c =
     Some (Inr (False, tempSet (\<lambda>t. t\<lparr> reg_queue := Some (messageQueue c @ [to1459 e m]) \<rparr>) c))"
  by (simp add: run.simps Let_def)

lemma run_prereg:
  "\<not> (toUpperCase (command m) = ''DEB'' \<or> toUpperCase (command m) = ''RELOAD'' \<or>
      toUpperCase (command m) = ''PING'') \<Longrightarrow>
   \<not> (truthy (capping (tempData (state c))) \<and> toUpperCase (command m) \<noteq> ''CAP'' \<and>
      source m \<noteq> Some ''queue'') \<Longrightarrow>
   \<not> netRegistered (state c) \<Longrightarrow>
   run e n m c =
     (if toUpperCase (command m) \<notin> set preRegisterCommands then Some (Inr (False, c))
      else
        (case call e n (toUpperCase (command m)) m
                (case reg_state (tempData (state c)) of
                   None \<Rightarrow> tempSet (\<lambda>t. t\<lparr> reg_state :=
                             Some \<lparr> reg_nick = [], reg_user = [], reg_pass = [] \<rparr> \<rparr>) c
                 | Some regState \<Rightarrow> c) of
           None \<Rightarrow> None
         | Some (Inl err) \<Rightarrow> Some (Inl err)
         | Some (Inr (r, c2)) \<Rightarrow>
             (case maybeProcessRegistration e c2 of
                Inl err \<Rightarrow> Some (Inl err)
              | Inr (r', c3) \<Rightarrow> Some (Inr (False, c3)))))"
  unfolding run.simps Let_def by (simp only: if_False if_True not_False_eq_True not_True_eq_False not_not)

lemma run_registered:
  "\<not> (toUpperCase (command m) = ''DEB'' \<or> toUpperCase (command m) = ''RELOAD'' \<or>
      toUpperCase (command m) = ''PING'') \<Longrightarrow>
   \<not> (truthy (capping (tempData (state c))) \<and> toUpperCase (command m) \<noteq> ''CAP'' \<and>
      source m \<noteq> Some ''queue'') \<Longrightarrow>
   netRegistered (state c) \<Longrightarrow>
   run e n m c =
     (if toUpperCase (command m) = ''CAP'' \<or> commands (toUpperCase (command m)) \<noteq> None
      then call e n (toUpperCase (command m)) m c
      else Some (Inr (True, c)))"
  unfolding run.simps Let_def by (simp only: if_False if_True not_False_eq_True not_True_eq_False not_not)


lemma call_gate_keys:
  assumes "verb \<noteq> ''CAP''" and "call e n verb m c = Some (Inr (r, c'))"
  shows "gate_keys c' = gate_keys c"
proof (cases "commands verb")
  case None
  with assms show ?thesis by (simp add: call_not_CAP)
next
  case (Some handler)
  with assms have "handler e m c = Inr (r, c')" by (simp add: call_not_CAP)
  with Some show ?thesis by (rule commands_gate_keys)
qed

lemma run_queued_gate_keys:
  assumes verb: "toUpperCase (command m) \<noteq> ''CAP''"
    and src: "source m = Some ''queue''"
    and res: "run e n m c = Some (Inr (r, c'))"
  shows "gate_keys c' = gate_keys c"
proof -
  let ?verb = "toUpperCase (command m)"
  let ?always = "?verb = ''DEB'' \<or> ?verb = ''RELOAD'' \<or> ?verb = ''PING''"
  have nogate: "\<not> (truthy (capping (tempData (state c))) \<and> ?verb \<noteq> ''CAP'' \<and>
                   source m \<noteq> Some ''queue'')"
    using src by simp
  show ?thesis
  proof (cases ?always)
    case True
    with res have "call e n ?verb m c = Some (Inr (r, c'))"
      by (simp only: run_unconditional)
    with verb show ?thesis by (rule call_gate_keys)
  next
    case False
    show ?thesis
    proof (cases "netRegistered (state c)")
      case True
      note eq = run_registered [OF False nogate True, of e n]
      show ?thesis
      proof (cases "commands ?verb")
        case None
        with eq verb res have "c' = c" by simp
        then show ?thesis by simp
      next
        case (Some handler)
        with eq res have "call e n ?verb m c = Some (Inr (r, c'))" by simp
        with verb show ?thesis by (rule call_gate_keys)
      qed
    next
      case unreg: False
      note eq = run_prereg [OF False nogate unreg, of e n]
      show ?thesis
      proof (cases "?verb \<in> set preRegisterCommands")
        case False
        with eq res have "c' = c" by simp
        then show ?thesis by simp
      next
        case True
        define c1 where "c1 = (case reg_state (tempData (state c)) of
                        None \<Rightarrow> tempSet (\<lambda>t. t\<lparr> reg_state :=
                                  Some \<lparr> reg_nick = [], reg_user = [], reg_pass = [] \<rparr> \<rparr>) c
                      | Some regState \<Rightarrow> c)"
        have k1: "gate_keys c1 = gate_keys c"
          by (simp add: c1_def gate_keys_def split: option.splits)
        from eq res True
        have step: "(case call e n ?verb m c1 of
                 None \<Rightarrow> None
               | Some (Inl err) \<Rightarrow> Some (Inl err)
               | Some (Inr (r, c2)) \<Rightarrow>
                   (case maybeProcessRegistration e c2 of
                      Inl err \<Rightarrow> Some (Inl err)
                    | Inr (r', c3) \<Rightarrow> Some (Inr (False, c3)))) = Some (Inr (r, c'))"
          unfolding c1_def by simp
        show ?thesis
        proof (cases "call e n ?verb m c1")
          case None
          with step show ?thesis by simp
        next
          case (Some res1)
          show ?thesis
          proof (cases res1)
            case (Inl err)
            with Some step show ?thesis by simp
          next
            case (Inr p)
            obtain r2 c2 where p: "p = (r2, c2)" by (cases p)
            with Some Inr have call2: "call e n ?verb m c1 = Some (Inr (r2, c2))" by simp
            with verb have k2: "gate_keys c2 = gate_keys c1" by (rule call_gate_keys)
            show ?thesis
            proof (cases "maybeProcessRegistration e c2")
              case (Inl err)
              with step call2 show ?thesis by simp
            next
              case (Inr p3)
              obtain r3 c3 where p3: "p3 = (r3, c3)" by (cases p3)
              with Inr step call2 have "c3 = c'" by simp
              with Inr p3 have "maybeProcessRegistration e c2 = Inr (r3, c')" by simp
              then have "gate_keys c' = gate_keys c2"
                by (rule maybeProcessRegistration_gate_keys)
              with k1 k2 show ?thesis by simp
            qed
          qed
        qed
      qed
    qed
  qed
qed

lemma gate_keys_tempSet_queue:
  "gate_keys (tempSet (\<lambda>t. t\<lparr> reg_queue := x \<rparr>) c) = (x, capping (tempData (state c)))"
  by (simp add: gate_keys_def)

lemma processConQueue_replay:
  assumes "list_all (queued_line e) q"
    and "messageQueue c = q"
    and "length q < n"
  shows "processConQueue e n c =
           (case replayQueue e n0 q c of
              None \<Rightarrow> None
            | Some (Inl err) \<Rightarrow> Some (Inl err)
            | Some (Inr (u, c')) \<Rightarrow> Some (Inr ((), tempSet (\<lambda>t. t\<lparr> reg_queue := None \<rparr>) c')))"
  using assms
proof (induction q arbitrary: c n)
  case Nil
  then obtain k where n: "n = Suc k" by (cases n) auto
  with Nil show ?case by simp
next
  case (Cons line rest)
  then obtain k where n: "n = Suc k" and k: "length rest < k" by (cases n) auto
  from Cons.prems(1) have hd_ok: "queued_line e line" and rest: "list_all (queued_line e) rest"
    by simp_all
  define c1 where "c1 = tempSet (\<lambda>t. t\<lparr> reg_queue := Some rest \<rparr>) c"
  have q1: "messageQueue c1 = rest"
    by (simp add: c1_def messageQueue_def)
  note ih = Cons.IH [OF rest _ k]
  show ?case
  proof (cases "if line = [] then None else ircLineParser e line")
    case None
    with Cons.prems(2) have "processConQueue e n c = processConQueue e k c1"
      by (simp add: n c1_def Let_def)
    moreover from None have "replayQueue e n0 (line # rest) c = replayQueue e n0 rest c1"
      by (simp add: c1_def Let_def)
    ultimately show ?thesis using ih [OF q1] by simp
  next
    case (Some parsed)
    then have parsed: "ircLineParser e line = Some parsed"
      by (simp split: if_splits)
    with hd_ok have verb: "toUpperCase (command parsed) \<noteq> ''CAP''"
      by (simp add: queued_line_def)
    define m where "m = parsed\<lparr> source := Some ''queue'' \<rparr>"
    have mverb: "toUpperCase (command m) \<noteq> ''CAP''" and msrc: "source m = Some ''queue''"
      using verb by (simp_all add: m_def)
    have fuel: "run e k m c1 = run e n0 m c1"
      using mverb by (rule run_not_CAP_fuel)
    have unfold: "processConQueue e n c =
        (case run e n0 m c1 of
           None \<Rightarrow> None
         | Some (Inl err) \<Rightarrow> Some (Inl err)
         | Some (Inr (r, c2)) \<Rightarrow> processConQueue e k c2)"
      using Cons.prems(2) Some by (simp add: n c1_def m_def fuel [unfolded c1_def m_def] Let_def)
    have spec: "replayQueue e n0 (line # rest) c =
        (case run e n0 m c1 of
           None \<Rightarrow> None
         | Some (Inl err) \<Rightarrow> Some (Inl err)
         | Some (Inr (r, c2)) \<Rightarrow> replayQueue e n0 rest c2)"
      using Some by (simp add: c1_def m_def Let_def)
    show ?thesis
    proof (cases "run e n0 m c1")
      case None
      with unfold spec show ?thesis by simp
    next
      case (Some res1)
      show ?thesis
      proof (cases res1)
        case (Inl err)
        with Some unfold spec show ?thesis by simp
      next
        case (Inr p)
        obtain r2 c2 where p: "p = (r2, c2)" by (cases p)
        with Some Inr have run2: "run e n0 m c1 = Some (Inr (r2, c2))" by simp
        with mverb msrc have "gate_keys c2 = gate_keys c1" by (rule run_queued_gate_keys)
        then have "messageQueue c2 = rest"
          by (simp add: c1_def gate_keys_def messageQueue_def)
        from ih [OF this] unfold spec run2 show ?thesis by simp
      qed
    qed
  qed
qed

text \<open>
  The loop of \<open>processConQueue\<close> reads the queue from the state after every dispatch,
  whatever the dispatched handler left there; it returns only when that queue is empty,
  and then removes it.
\<close>

lemma processConQueue_removes_queue:
  "processConQueue e n c = Some (Inr (u, c')) \<Longrightarrow> reg_queue (tempData (state c')) = None"
proof (induction n arbitrary: c)
  case 0
  then show ?case by simp
next
  case (Suc k)
  show ?case
  proof (cases "messageQueue c")
    case Nil
    with Suc.prems show ?thesis by auto
  next
    case (Cons line rest)
    define c1 where "c1 = tempSet (\<lambda>t. t\<lparr> reg_queue := Some rest \<rparr>) c"
    show ?thesis
    proof (cases "if line = [] then None else ircLineParser e line")
      case None
      with Cons Suc.prems have "processConQueue e k c1 = Some (Inr (u, c'))"
        by (simp add: c1_def Let_def)
      then show ?thesis by (rule Suc.IH)
    next
      case (Some parsed)
      with Cons Suc.prems have step:
        "(case run e k (parsed\<lparr> source := Some ''queue'' \<rparr>) c1 of
            None \<Rightarrow> None
          | Some (Inl err) \<Rightarrow> Some (Inl err)
          | Some (Inr (r, c2)) \<Rightarrow> processConQueue e k c2) = Some (Inr (u, c'))"
        by (simp add: c1_def Let_def)
      then obtain r c2 where "processConQueue e k c2 = Some (Inr (u, c'))"
        by (cases "run e k (parsed\<lparr> source := Some ''queue'' \<rparr>) c1")
           (auto split: sum.splits)
      then show ?thesis by (rule Suc.IH)
    qed
  qed
qed

text \<open>One step of the replay: the line is passed over, or its dispatch decides.\<close>

lemma replayQueue_step:
  assumes "queued_line e line"
  obtains (skip) "replayQueue e n (line # rest) c =
                    replayQueue e n rest (tempSet (\<lambda>t. t\<lparr> reg_queue := Some rest \<rparr>) c)"
  | (error) err where "replayQueue e n (line # rest) c = Some (Inl err)"
  | (dispatch) c2 where "replayQueue e n (line # rest) c = replayQueue e n rest c2"
      and "gate_keys c2 = gate_keys (tempSet (\<lambda>t. t\<lparr> reg_queue := Some rest \<rparr>) c)"
proof (cases "if line = [] then None else ircLineParser e line")
  case None
  then have "replayQueue e n (line # rest) c =
               replayQueue e n rest (tempSet (\<lambda>t. t\<lparr> reg_queue := Some rest \<rparr>) c)"
    by (simp add: Let_def)
  then show ?thesis by (rule skip)
next
  case (Some parsed)
  then have parsed: "ircLineParser e line = Some parsed"
    by (simp split: if_splits)
  with assms have verb: "toUpperCase (command parsed) \<noteq> ''CAP''"
    by (simp add: queued_line_def)
  define c1 where "c1 = tempSet (\<lambda>t. t\<lparr> reg_queue := Some rest \<rparr>) c"
  define m where "m = parsed\<lparr> source := Some ''queue'' \<rparr>"
  have mverb: "toUpperCase (command m) \<noteq> ''CAP''" and msrc: "source m = Some ''queue''"
    using verb by (simp_all add: m_def)
  from mverb have some: "run e n m c1 \<noteq> None" by (rule run_not_CAP_Some)
  have spec: "replayQueue e n (line # rest) c =
      (case run e n m c1 of
         None \<Rightarrow> None
       | Some (Inl err) \<Rightarrow> Some (Inl err)
       | Some (Inr (r, c2)) \<Rightarrow> replayQueue e n rest c2)"
    using Some by (simp add: c1_def m_def Let_def)
  show ?thesis
  proof (cases "run e n m c1")
    case None
    with some show ?thesis by simp
  next
    case (Some res1)
    show ?thesis
    proof (cases res1)
      case (Inl err)
      with Some spec have "replayQueue e n (line # rest) c = Some (Inl err)" by simp
      then show ?thesis by (rule error)
    next
      case (Inr p)
      obtain r2 c2 where p: "p = (r2, c2)" by (cases p)
      with Some Inr have run2: "run e n m c1 = Some (Inr (r2, c2))" by simp
      with mverb msrc have keys: "gate_keys c2 = gate_keys c1" by (rule run_queued_gate_keys)
      from run2 spec have "replayQueue e n (line # rest) c = replayQueue e n rest c2" by simp
      then show ?thesis using keys unfolding c1_def by (rule dispatch)
    qed
  qed
qed

lemma replayQueue_Some:
  "list_all (queued_line e) q \<Longrightarrow> replayQueue e n q c \<noteq> None"
proof (induction q arbitrary: c)
  case Nil
  show ?case by simp
next
  case (Cons line rest)
  then have hd_ok: "queued_line e line" and rest: "list_all (queued_line e) rest"
    by simp_all
  from hd_ok show ?case
  proof (cases rule: replayQueue_step [where n = n and rest = rest and c = c])
    case skip
    with Cons.IH [OF rest] show ?thesis by simp
  next
    case (error err)
    then show ?thesis by simp
  next
    case (dispatch c2)
    with Cons.IH [OF rest] show ?thesis by simp
  qed
qed

lemma replayQueue_gate_keys:
  "list_all (queued_line e) q \<Longrightarrow> replayQueue e n q c = Some (Inr (u, c')) \<Longrightarrow>
     capping (tempData (state c')) = capping (tempData (state c)) \<and>
     (q \<noteq> [] \<longrightarrow> reg_queue (tempData (state c')) = Some [])"
proof (induction q arbitrary: c)
  case Nil
  then show ?case by simp
next
  case (Cons line rest)
  then have hd_ok: "queued_line e line" and rest: "list_all (queued_line e) rest"
    by simp_all
  have final: "capping (tempData (state c')) = capping (tempData (state c)) \<and>
               reg_queue (tempData (state c')) = Some []"
    if run: "replayQueue e n rest c2 = Some (Inr (u, c'))"
      and keys: "gate_keys c2 = gate_keys (tempSet (\<lambda>t. t\<lparr> reg_queue := Some rest \<rparr>) c)"
    for c2
  proof (cases rest)
    case Nil
    with run have "c' = c2" by simp
    with keys Nil show ?thesis by (simp add: gate_keys_def)
  next
    case (Cons a list)
    with Cons.IH [OF rest run] keys show ?thesis by (simp add: gate_keys_def)
  qed
  from hd_ok show ?case
  proof (cases rule: replayQueue_step [where n = n and rest = rest and c = c])
    case skip
    with Cons.prems(2) final [OF _ refl] show ?thesis by simp
  next
    case (error err)
    with Cons.prems(2) show ?thesis by simp
  next
    case (dispatch c2)
    with Cons.prems(2) final [of c2] show ?thesis by simp
  qed
qed

lemmas example_defs =
  example_con_def example_env_def new_ConnectionState_def example_capping_def
  example_bad_password_def example_attached_def example_upstream_def freenode_def
  new_IrcBuffer_def example_draining_def

lemmas eval_defs =
  run.simps call.simps commands_CAP.simps commands_def preRegisterCommands_def
  commands_PASS_def commands_USER_def commands_NICK_def commands_PING_def
  maybeProcessRegistration_def CAP_LIST_LS_REQ_def mParam_def mParamU_def param_def
  truthy_def toUpperCase_def messageQueue_def upstream_def findUsersOutgoingConnection_def
  tempSet_def save_state_def emit_def queued_line_def Let_def

text \<open>
  What CAP LS stores under \<open>capping\<close> is the version parameter or \<open>301\<close>, never the empty
  string: a value stored by the handler is truthy, so "set" and "truthy" agree on it.
\<close>

lemma mParamU_default_nonempty: "d \<noteq> [] \<Longrightarrow> mParamU m i d \<noteq> []"
  by (simp add: mParamU_def mParam_def toUpperCase_def truthy_def param_def)

lemma CAP_LS_capping_truthy:
  assumes "mParamU m 0 [] = ''LS''"
  shows "\<exists>c'. commands_CAP e n m c = Some (Inr (False, c')) \<and>
              truthy (capping (tempData (state c')))"
  using assms mParamU_default_nonempty [of "''301''" m 1]
  by (simp add: commands_CAP.simps CAP_LIST_LS_REQ_def Let_def truthy_def)

subsection \<open>The CAP gate\<close>

text \<open>
  C1. While \<open>capping\<close> is set (truthy, as \<open>run\<close> tests it), a message from the socket whose
  verb is neither CAP nor one of the unconditional verbs DEB, RELOAD, PING is only queued:
  \<open>run\<close> appends its wire line to the end of \<open>reg.queue\<close>, saves the state and returns
  "do not forward". Nothing else of the connection changes, no call is made, and \<open>capping\<close>
  is still set afterwards, so the same holds for the next such message.
\<close>

theorem C1_cap_gate_enqueues:
  assumes cap: "truthy (capping (tempData (state c)))"
    and verb: "toUpperCase (command m) \<noteq> ''CAP''"
    and src: "source m \<noteq> Some ''queue''"
    and always: "toUpperCase (command m) \<notin> {''DEB'', ''RELOAD'', ''PING''}"
  shows "(let c' = tempSet (\<lambda>t. t\<lparr> reg_queue := Some (messageQueue c @ [to1459 e m]) \<rparr>) c in
          run e n m c = Some (Inr (False, c')) \<and>
          messageQueue c' = messageQueue c @ [to1459 e m] \<and>
          state c' = (state c)\<lparr> tempData := (tempData (state c))
                        \<lparr> reg_queue := Some (messageQueue c @ [to1459 e m]) \<rparr> \<rparr> \<and>
          truthy (capping (tempData (state c'))) \<and>
          db c' = save (state c') (db c) \<and>
          conDict c' = conDict c \<and>
          out c' = out c)"
proof -
  from always have "\<not> (toUpperCase (command m) = ''DEB'' \<or> toUpperCase (command m) = ''RELOAD'' \<or>
      toUpperCase (command m) = ''PING'')"
    by simp
  moreover from cap verb src have "truthy (capping (tempData (state c))) \<and>
      toUpperCase (command m) \<noteq> ''CAP'' \<and> source m \<noteq> Some ''queue''"
    by simp
  ultimately have "run e n m c =
     Some (Inr (False, tempSet (\<lambda>t. t\<lparr> reg_queue := Some (messageQueue c @ [to1459 e m]) \<rparr>) c))"
    by (rule run_cap_gate)
  with cap show ?thesis
    by (simp add: Let_def messageQueue_def tempSet_def save_state_def)
qed

theorem C1_cap_gate_enqueues_witness:
  "truthy (capping (tempData (state example_capping))) \<and>
   run example_env 0 \<lparr> command = ''join'', params = [''#bar''], source = None \<rparr> example_capping
     = Some (Inr (False, tempSet (\<lambda>t. t\<lparr> reg_queue := Some [''NICK bob'', ''JOIN #foo'', ''join #bar''] \<rparr>)
                            example_capping))"
  using C1_cap_gate_enqueues [of example_capping "\<lparr> command = ''join'', params = [''#bar''], source = None \<rparr>"
      example_env 0]
  by (simp add: example_capping_def example_con_def example_env_def new_ConnectionState_def
        truthy_def toUpperCase_def messageQueue_def Let_def)

subsection \<open>The pre-registration gate\<close>

text \<open>
  C2, as amended. For a message on a connection with \<open>netRegistered = false\<close> whose verb is not
  one of the unconditional verbs DEB, RELOAD, PING and which the CAP gate does not catch:
  a verb outside USER, NICK, PASS, CAP makes \<open>run\<close> return "do not forward" with the
  connection untouched; for one of the four, \<open>run\<close> first initialises \<open>reg.state\<close> to empty
  nick, user and pass when it is absent, then applies the verb's handler, and, when the
  handler returns normally, applies \<open>maybeProcessRegistration\<close> to the result and returns
  "do not forward".
\<close>

theorem C2_preregistration_gate:
  assumes always: "toUpperCase (command m) \<notin> {''DEB'', ''RELOAD'', ''PING''}"
    and gate: "\<not> (truthy (capping (tempData (state c))) \<and> toUpperCase (command m) \<noteq> ''CAP'' \<and>
                  source m \<noteq> Some ''queue'')"
    and unreg: "\<not> netRegistered (state c)"
  shows "(toUpperCase (command m) \<notin> {''USER'', ''NICK'', ''PASS'', ''CAP''} \<longrightarrow>
            run e n m c = Some (Inr (False, c)))
       \<and> (toUpperCase (command m) \<in> {''USER'', ''NICK'', ''PASS'', ''CAP''} \<longrightarrow>
            (let verb = toUpperCase (command m);
                 c1 = (case reg_state (tempData (state c)) of
                         None \<Rightarrow> tempSet (\<lambda>t. t\<lparr> reg_state :=
                                   Some \<lparr> reg_nick = [], reg_user = [], reg_pass = [] \<rparr> \<rparr>) c
                       | Some regState \<Rightarrow> c)
             in call e n verb m c1 =
                  (if verb = ''USER'' then Some (commands_USER e m c1)
                   else if verb = ''NICK'' then Some (commands_NICK e m c1)
                   else if verb = ''PASS'' then Some (commands_PASS e m c1)
                   else commands_CAP e n m c1) \<and>
                run e n m c =
                  (case call e n verb m c1 of
                     None \<Rightarrow> None
                   | Some (Inl err) \<Rightarrow> Some (Inl err)
                   | Some (Inr (r, c2)) \<Rightarrow>
                       (case maybeProcessRegistration e c2 of
                          Inl err \<Rightarrow> Some (Inl err)
                        | Inr (r', c3) \<Rightarrow> Some (Inr (False, c3))))))"
proof -
  let ?verb = "toUpperCase (command m)"
  let ?c1 = "case reg_state (tempData (state c)) of
               None \<Rightarrow> tempSet (\<lambda>t. t\<lparr> reg_state :=
                         Some \<lparr> reg_nick = [], reg_user = [], reg_pass = [] \<rparr> \<rparr>) c
             | Some regState \<Rightarrow> c"
  from always have na: "\<not> (?verb = ''DEB'' \<or> ?verb = ''RELOAD'' \<or> ?verb = ''PING'')"
    by simp
  note eq = run_prereg [OF na gate unreg, of e n]
  have mem: "(?verb \<in> set preRegisterCommands) = (?verb \<in> {''USER'', ''NICK'', ''PASS'', ''CAP''})"
    by (simp add: preRegisterCommands_def)
  have drop: "run e n m c = Some (Inr (False, c))"
    if "?verb \<notin> {''USER'', ''NICK'', ''PASS'', ''CAP''}"
  proof -
    from that mem have "?verb \<notin> set preRegisterCommands" by blast
    then show ?thesis by (simp only: eq if_True not_False_eq_True)
  qed
  have exec: "run e n m c =
                  (case call e n ?verb m ?c1 of
                     None \<Rightarrow> None
                   | Some (Inl err) \<Rightarrow> Some (Inl err)
                   | Some (Inr (r, c2)) \<Rightarrow>
                       (case maybeProcessRegistration e c2 of
                          Inl err \<Rightarrow> Some (Inl err)
                        | Inr (r', c3) \<Rightarrow> Some (Inr (False, c3))))"
    if "?verb \<in> {''USER'', ''NICK'', ''PASS'', ''CAP''}"
  proof -
    from that mem have "?verb \<in> set preRegisterCommands" by blast
    then show ?thesis by (simp only: eq if_False not_True_eq_False)
  qed
  have table: "call e n ?verb m ?c1 =
                  (if ?verb = ''USER'' then Some (commands_USER e m ?c1)
                   else if ?verb = ''NICK'' then Some (commands_NICK e m ?c1)
                   else if ?verb = ''PASS'' then Some (commands_PASS e m ?c1)
                   else commands_CAP e n m ?c1)"
    if "?verb \<in> {''USER'', ''NICK'', ''PASS'', ''CAP''}"
  proof -
    from that consider "?verb = ''USER''" | "?verb = ''NICK''" | "?verb = ''PASS''" | "?verb = ''CAP''"
      by blast
    then show ?thesis
      by cases (simp_all add: call.simps commands_def)
  qed
  show ?thesis
    unfolding Let_def
  proof (intro conjI impI)
    assume "?verb \<notin> {''USER'', ''NICK'', ''PASS'', ''CAP''}"
    then show "run e n m c = Some (Inr (False, c))" by (rule drop)
  next
    assume "?verb \<in> {''USER'', ''NICK'', ''PASS'', ''CAP''}"
    then show "call e n ?verb m ?c1 =
                  (if ?verb = ''USER'' then Some (commands_USER e m ?c1)
                   else if ?verb = ''NICK'' then Some (commands_NICK e m ?c1)
                   else if ?verb = ''PASS'' then Some (commands_PASS e m ?c1)
                   else commands_CAP e n m ?c1)"
      by (rule table)
  next
    assume "?verb \<in> {''USER'', ''NICK'', ''PASS'', ''CAP''}"
    then show "run e n m c =
                  (case call e n ?verb m ?c1 of
                     None \<Rightarrow> None
                   | Some (Inl err) \<Rightarrow> Some (Inl err)
                   | Some (Inr (r, c2)) \<Rightarrow>
                       (case maybeProcessRegistration e c2 of
                          Inl err \<Rightarrow> Some (Inl err)
                        | Inr (r', c3) \<Rightarrow> Some (Inr (False, c3))))"
      by (rule exec)
  qed
qed

theorem C2_preregistration_gate_witness:
  "\<not> netRegistered (state example_con) \<and>
   run example_env 0 \<lparr> command = ''JOIN'', params = [''#foo''], source = None \<rparr> example_con
     = Some (Inr (False, example_con)) \<and>
   (case run example_env 0 \<lparr> command = ''nick'', params = [''bob''], source = None \<rparr> example_con of
      Some (Inr (r, c')) \<Rightarrow>
        r = False \<and>
        tempData (state c') =
          \<lparr> capping = None,
            reg_state = Some \<lparr> reg_nick = ''bob'', reg_user = [], reg_pass = [] \<rparr>,
            reg_queue = None \<rparr> \<and>
        out c' = [WriteMsgFrom (Some ''bob'') ''NICK'' [Some ''bob''],
                  WriteMsgFrom (Some ''bnc'') ''464'' [Some ''bob'', Some ''Password required''],
                  WriteFromBnc ''NOTICE''
                    [Some ''bob'',
                     Some ''You must send your password first. /quote PASS <username>/<network>:<password>'']]
    | _ \<Rightarrow> False)"
  using C2_preregistration_gate [where m = "\<lparr> command = ''JOIN'', params = [''#foo''], source = None \<rparr>"
          and c = example_con and e = example_env and n = 0]
        C2_preregistration_gate [where m = "\<lparr> command = ''nick'', params = [''bob''], source = None \<rparr>"
          and c = example_con and e = example_env and n = 0]
  by (simp add: example_defs eval_defs)

text \<open>
  C2 as stated does not except the unconditional verbs: a PING on a connection that has not
  registered is not one of USER, NICK, PASS, CAP, yet its handler runs and a PONG is written.
\<close>

theorem C2_preregistration_gate_counterexample:
  "\<not> netRegistered (state example_con) \<and>
   \<not> truthy (capping (tempData (state example_con))) \<and>
   toUpperCase ''PING'' \<notin> {''USER'', ''NICK'', ''PASS'', ''CAP''} \<and>
   run example_env 0 \<lparr> command = ''PING'', params = [''t1''], source = None \<rparr> example_con
     = Some (Inr (False, example_con\<lparr> out := [WriteMsg ''PONG'' [Some ''t1'']] \<rparr>))"
  by (simp add: example_defs eval_defs)

subsection \<open>Registration\<close>

text \<open>
  C3. With \<open>reg.state\<close> present, \<open>maybeProcessRegistration\<close> returns without any effect unless
  nick, user and pass are all non-empty and \<open>capping\<close> is not set. When it goes on and the
  credential lookup (\<open>authUserNetwork\<close> if the PASS triple names a network, \<open>authUser\<close>
  otherwise) finds nothing, it writes ERROR with the parameter \<open>Invalid password\<close> and closes
  the connection; the state, and with it \<open>authUserId\<close> and \<open>authNetworkId\<close>, is unchanged.
\<close>

theorem C3_maybeProcessRegistration:
  assumes rs: "reg_state (tempData (state c)) = Some rs"
  shows "((reg_nick rs = [] \<or> reg_user rs = [] \<or> reg_pass rs = [] \<or>
           truthy (capping (tempData (state c))))
          \<longrightarrow> maybeProcessRegistration e c = Inr (False, c))
       \<and> (reg_nick rs \<noteq> [] \<and> reg_user rs \<noteq> [] \<and> reg_pass rs \<noteq> [] \<and>
          \<not> truthy (capping (tempData (state c))) \<and>
          pass_match (reg_pass rs) = Some (uname, m2, m3) \<and>
          (if or_empty m2 \<noteq> []
           then authUserNetwork e uname (or_empty m3) (or_empty m2) = None
           else authUser e uname (or_empty m3) = None)
          \<longrightarrow> maybeProcessRegistration e c
                = Inr (False, c\<lparr> out := out c @ [WriteMsg ''ERROR'' [Some ''Invalid password''], Close] \<rparr>))"
  using rs
  by (auto simp: maybeProcessRegistration_def invalid_password_def emit_def Let_def
           split: option.splits if_splits)

theorem C3_maybeProcessRegistration_witness:
  "reg_state (tempData (state example_bad_password))
     = Some \<lparr> reg_nick = ''n'', reg_user = ''u'', reg_pass = ''xxx'' \<rparr> \<and>
   pass_match ''xxx'' = Some (''xxx'', None, None) \<and>
   authUser example_env ''xxx'' [] = None \<and>
   maybeProcessRegistration example_env example_bad_password
     = Inr (False, example_bad_password
                     \<lparr> out := [WriteMsg ''ERROR'' [Some ''Invalid password''], Close] \<rparr>) \<and>
   maybeProcessRegistration example_env
       (example_bad_password\<lparr> state := (state example_bad_password)\<lparr> tempData :=
          (tempData (state example_bad_password))\<lparr> capping := Some ''302'' \<rparr> \<rparr> \<rparr>)
     = Inr (False,
            example_bad_password\<lparr> state := (state example_bad_password)\<lparr> tempData :=
              (tempData (state example_bad_password))\<lparr> capping := Some ''302'' \<rparr> \<rparr> \<rparr>)"
  using C3_maybeProcessRegistration [where c = example_bad_password
          and rs = "\<lparr> reg_nick = ''n'', reg_user = ''u'', reg_pass = ''xxx'' \<rparr>"
          and uname = "''xxx''" and ?m2.0 = None and ?m3.0 = None and e = example_env]
        C3_maybeProcessRegistration [where c = "example_bad_password\<lparr> state := (state example_bad_password)\<lparr> tempData :=
              (tempData (state example_bad_password))\<lparr> capping := Some ''302'' \<rparr> \<rparr> \<rparr>"
          and rs = "\<lparr> reg_nick = ''n'', reg_user = ''u'', reg_pass = ''xxx'' \<rparr>"
          and e = example_env]
  by (simp add: example_defs pass_match_def or_empty_def truthy_def Let_def invalid_password_def emit_def
        maybeProcessRegistration_def)

subsection \<open>CAP END\<close>

text \<open>
  On CAP END, for a queue of lines as the CAP gate stores them and fuel beyond the length
  of the queue, the handler returns what the replay of the specification returns: every
  queued line is parsed and dispatched through \<open>run\<close> with \<open>source = 'queue'\<close>, in arrival
  order, until none is left or a dispatched handler throws. The replay always returns; when
  it returns normally \<open>capping\<close> still has the value it had and the queue is empty, and only
  then is \<open>reg.queue\<close> removed and \<open>capping\<close> cleared. For any queue and any fuel, the loop of
  \<open>processConQueue\<close> returns normally only with \<open>reg.queue\<close> removed.
\<close>

lemma CAP_END_replays_queue:
  assumes sub: "mParamU m 0 [] = ''END''"
    and lines: "list_all (queued_line e) (messageQueue c)"
    and fuel: "length (messageQueue c) < n"
  shows "commands_CAP e n m c =
           (case replayQueue e n (messageQueue c) c of
              None \<Rightarrow> None
            | Some (Inl err) \<Rightarrow> Some (Inl err)
            | Some (Inr (u, c')) \<Rightarrow>
                Some (Inr (False, tempSet (\<lambda>t. t\<lparr> capping := None \<rparr>)
                                    (tempSet (\<lambda>t. t\<lparr> reg_queue := None \<rparr>) c'))))
       \<and> replayQueue e n (messageQueue c) c \<noteq> None
       \<and> commands_CAP e n m c \<noteq> None
       \<and> (\<forall>u c'. replayQueue e n (messageQueue c) c = Some (Inr (u, c')) \<longrightarrow>
             capping (tempData (state c')) = capping (tempData (state c)) \<and> messageQueue c' = [])
       \<and> (\<forall>k c0 u c'. processConQueue e k c0 = Some (Inr (u, c')) \<longrightarrow>
             reg_queue (tempData (state c')) = None)"
proof (intro conjI allI impI)
  have pre: "CAP_LIST_LS_REQ e m c = Inr ((), c)"
    using sub by (simp add: CAP_LIST_LS_REQ_def Let_def)
  have drain: "processConQueue e n c =
           (case replayQueue e n (messageQueue c) c of
              None \<Rightarrow> None
            | Some (Inl err) \<Rightarrow> Some (Inl err)
            | Some (Inr (u, c')) \<Rightarrow> Some (Inr ((), tempSet (\<lambda>t. t\<lparr> reg_queue := None \<rparr>) c')))"
    using lines refl fuel by (rule processConQueue_replay)
  show "commands_CAP e n m c =
           (case replayQueue e n (messageQueue c) c of
              None \<Rightarrow> None
            | Some (Inl err) \<Rightarrow> Some (Inl err)
            | Some (Inr (u, c')) \<Rightarrow>
                Some (Inr (False, tempSet (\<lambda>t. t\<lparr> capping := None \<rparr>)
                                    (tempSet (\<lambda>t. t\<lparr> reg_queue := None \<rparr>) c'))))"
    by (simp add: commands_CAP.simps pre sub drain split: option.splits sum.splits)
  then show "commands_CAP e n m c \<noteq> None"
    using replayQueue_Some [OF lines, of n c] by (auto split: option.splits sum.splits)
  show "replayQueue e n (messageQueue c) c \<noteq> None"
    using lines by (rule replayQueue_Some)
next
  fix k c0 u c'
  assume "processConQueue e k c0 = Some (Inr (u, c'))"
  then show "reg_queue (tempData (state c')) = None"
    by (rule processConQueue_removes_queue)
next
  fix u c'
  assume r: "replayQueue e n (messageQueue c) c = Some (Inr (u, c'))"
  from replayQueue_gate_keys [OF lines r]
  have cap: "capping (tempData (state c')) = capping (tempData (state c))"
    and q: "messageQueue c \<noteq> [] \<longrightarrow> reg_queue (tempData (state c')) = Some []"
    by simp_all
  have "messageQueue c' = []"
  proof (cases "messageQueue c")
    case Nil
    with r have "c' = c" by simp
    with Nil show ?thesis by simp
  next
    case (Cons a list)
    with q show ?thesis by (simp add: messageQueue_def)
  qed
  then show "messageQueue c' = []" .
  from cap show "capping (tempData (state c')) = capping (tempData (state c))" .
qed

text \<open>The same on the client that holds back \<open>NICK bob\<close> and \<open>JOIN #foo\<close>.\<close>

lemma CAP_END_replays_queue_example:
  "list_all (queued_line example_env) (messageQueue example_capping) \<and>
   (case commands_CAP example_env 3 \<lparr> command = ''CAP'', params = [''END''], source = None \<rparr>
           example_capping of
      Some (Inr (r, c')) \<Rightarrow>
        r = False \<and>
        out c' = [WriteMsgFrom (Some ''bob'') ''NICK'' [Some ''bob''],
                  WriteMsgFrom (Some ''bnc'') ''464'' [Some ''bob'', Some ''Password required''],
                  WriteFromBnc ''NOTICE''
                    [Some ''bob'',
                     Some ''You must send your password first. /quote PASS <username>/<network>:<password>'']] \<and>
        tempData (state c') =
          \<lparr> capping = None,
            reg_state = Some \<lparr> reg_nick = ''bob'', reg_user = [], reg_pass = [] \<rparr>,
            reg_queue = None \<rparr>
    | _ \<Rightarrow> False)"
  using CAP_END_replays_queue [where m = "\<lparr> command = ''CAP'', params = [''END''], source = None \<rparr>"
          and e = example_env and c = example_capping and n = 3]
  by (simp add: example_defs eval_defs)

text \<open>
  When the dispatch of the first queued line throws, so does CAP END: the lines after it are
  not dispatched and the CAP handler does not reach the clearing of \<open>capping\<close>.
\<close>

lemma CAP_END_handler_throws:
  assumes "mParamU m 0 [] = ''END''"
    and "messageQueue c = line # rest" and "line \<noteq> []"
    and "ircLineParser e line = Some parsed"
    and "run e n (parsed\<lparr> source := Some ''queue'' \<rparr>)
           (tempSet (\<lambda>t. t\<lparr> reg_queue := Some rest \<rparr>) c) = Some (Inl err)"
  shows "commands_CAP e (Suc n) m c = Some (Inl err)"
  using assms by (simp add: commands_CAP.simps CAP_LIST_LS_REQ_def Let_def)

text \<open>
  How the attached client comes to hold back two lines: it sends \<open>CAP LS 302\<close>, and the CAP
  gate queues the two lines that follow.
\<close>

lemma example_draining_reached:
  "(case run example_env 1 \<lparr> command = ''CAP'', params = [''LS'', ''302''], source = None \<rparr>
           example_attached of
      Some (Inr (r1, c1)) \<Rightarrow>
        (case run example_env 1
                \<lparr> command = ''BOUNCER'', params = [''DELBUFFER'', ''freenode'', ''#a''],
                  source = None \<rparr> c1 of
           Some (Inr (r2, c2)) \<Rightarrow>
             (case run example_env 1
                     \<lparr> command = ''PRIVMSG'', params = [''#x'', ''hi''], source = None \<rparr> c2 of
                Some (Inr (r3, c3)) \<Rightarrow>
                  state c3 = state example_draining \<and> conDict c3 = conDict example_draining \<and>
                  out c3 = [WriteMsg ''CAP'' [Some ''*'', Some ''LS'', Some ''server-time batch'']]
              | _ \<Rightarrow> False)
         | _ \<Rightarrow> False)
    | _ \<Rightarrow> False)"
  by (simp add: example_defs eval_defs strs_def)

text \<open>
  C4. A queued line whose handler throws ends the drain. The attached client holds back
  \<open>BOUNCER DELBUFFER freenode #a\<close> and \<open>PRIVMSG #x hi\<close>. On CAP END the first line is
  dispatched and its handler throws (it calls \<open>getChannel\<close>, which ConnectionState does not
  have); \<open>processConQueue\<close> and the CAP handler pass the error on. The second line is not dispatched
  and stays in \<open>reg.queue\<close>, \<open>capping\<close> keeps its value, and nothing is written.
\<close>

theorem C4_cap_end_drain_aborts:
  "(let c' = tempSet (\<lambda>t. t\<lparr> reg_queue := Some [''PRIVMSG #x hi''] \<rparr>) example_draining
    in run example_env (Suc n) \<lparr> command = ''CAP'', params = [''END''], source = None \<rparr>
         example_draining = Some (Inl (TypeError, c')) \<and>
       capping (tempData (state c')) = Some ''302'' \<and>
       reg_queue (tempData (state c')) = Some [''PRIVMSG #x hi''] \<and>
       out c' = [])"
  by (simp add: example_defs eval_defs commands_BOUNCER_def BOUNCER_DELBUFFER_def
        getChannel_def split_space.simps)

subsection \<open>CAP REQ\<close>

text \<open>
  On an array the REQ branch does what it is meant to do: the requested names that are
  available are appended to \<open>caps\<close>, the state is saved and the same names are acknowledged.
\<close>

lemma CAP_REQ_on_array:
  assumes "mParamU m 0 [] = ''REQ''" and "caps (state c) = CapsArray xs"
  shows "commands_CAP e n m c =
           (let matched = filter (\<lambda>cap. cap \<in> set (available_caps e)) (split_space (mParam m 1 []));
                c1 = save_state (c\<lparr> state := (state c)\<lparr> caps := CapsArray (xs @ matched) \<rparr> \<rparr>)
            in Some (Inr (False, emit [WriteMsg ''CAP'' (strs [''*'', ''ACK'', join '' '' matched])] c1)))"
  using assms by (simp add: commands_CAP.simps CAP_LIST_LS_REQ_def Let_def)

text \<open>
  C5. \<open>caps\<close> of a ConnectionState is a \<open>Set\<close> (constructor and \<open>load\<close>), and a \<open>Set\<close> has no
  \<open>concat\<close>: for every CAP REQ on such a state the handler throws a TypeError before
  anything is appended, saved or acknowledged.
\<close>

theorem C5_cap_req_on_a_Set:
  "commands_CAP e n \<lparr> command = ''CAP'', params = [''REQ'', requested], source = src \<rparr>
       (c\<lparr> state := (state c)\<lparr> caps := CapsSet xs \<rparr> \<rparr>)
     = Some (Inl (TypeError, c\<lparr> state := (state c)\<lparr> caps := CapsSet xs \<rparr> \<rparr>))"
  by (simp add: commands_CAP.simps CAP_LIST_LS_REQ_def Let_def mParamU_def mParam_def
        param_def truthy_def toUpperCase_def)

subsection \<open>save and load\<close>






lemma name_fromObj [simp]: "name (fromObj obj) = name obj"
  by (simp add: fromObj_def new_IrcBuffer_def)

lemma name_new_IrcBuffer [simp]: "name (new_IrcBuffer n up) = n"
  by (simp add: new_IrcBuffer_def)

text \<open>On the object without a prototype every key is read, written and deleted.\<close>

lemma addBuffer_NullProto:
  "buffers st = NullProto al \<Longrightarrow>
     addBuffer chan up st =
       (let buffer = (case chan of Inl n \<Rightarrow> new_IrcBuffer n up | Inr obj \<Rightarrow> fromObj obj)
        in Described
             (buffer,
              st\<lparr> buffers := NullProto (AList.update (toLowerCase (name buffer)) buffer al) \<rparr>))"
  by (simp add: addBuffer_def assign_key_def Let_def)



lemma foldl_addBuffer:
  "buffers s0 = NullProto al \<Longrightarrow>
   foldl (\<lambda>s (chanName, obj).
            case addBuffer (Inr obj) None s of
              Described (buffer, s') \<Rightarrow> s'
            | NotDescribed \<Rightarrow> s) s0 bs =
     s0\<lparr> buffers := NullProto (foldl (\<lambda>acc (chanName, obj).
                          AList.update (toLowerCase (name obj)) (fromObj obj) acc) al bs) \<rparr>"
proof (induction bs arbitrary: s0 al)
  case Nil
  then show ?case by simp
next
  case (Cons p bs)
  obtain chanName obj where p: "p = (chanName, obj)" by (cases p)
  let ?s1 = "s0\<lparr> buffers := NullProto (AList.update (toLowerCase (name obj)) (fromObj obj) al) \<rparr>"
  have step: "addBuffer (Inr obj) None s0 = Described (fromObj obj, ?s1)"
    using Cons.prems by (simp add: addBuffer_NullProto Let_def)
  have "buffers ?s1 = NullProto (AList.update (toLowerCase (name obj)) (fromObj obj) al)"
    by simp
  from Cons.IH [OF this] show ?case
    by (simp add: p step)
qed

lemma update_fresh: "k \<notin> fst ` set acc \<Longrightarrow> AList.update k v acc = acc @ [(k, v)]"
  by (induction acc) auto

lemma foldl_update_rebuild:
  "buffers_inv bs \<Longrightarrow> fst ` set acc \<inter> fst ` set bs = {} \<Longrightarrow>
     foldl (\<lambda>acc (chanName, obj). AList.update (toLowerCase (name obj)) (fromObj obj) acc) acc bs
       = acc @ map (\<lambda>(k, b). (k, fromObj b)) bs"
proof (induction bs arbitrary: acc)
  case Nil
  then show ?case by simp
next
  case (Cons p bs)
  obtain k b where p: "p = (k, b)" by (cases p)
  from Cons.prems p have k: "k = toLowerCase (name b)" and fresh: "k \<notin> fst ` set acc"
    and inv: "buffers_inv bs" and knew: "k \<notin> fst ` set bs"
    by (auto simp: buffers_inv_def)
  from fresh have upd: "AList.update k (fromObj b) acc = acc @ [(k, fromObj b)]"
    by (rule update_fresh)
  from Cons.prems p knew have disj: "fst ` set (acc @ [(k, fromObj b)]) \<inter> fst ` set bs = {}"
    by auto
  show ?case
    using Cons.IH [OF inv disj] by (simp add: p k [symmetric] upd)
qed

lemma fromObj_lastSeen: "fromObj b = b\<lparr> lastSeen := 0 \<rparr>"
  by (simp add: fromObj_def new_IrcBuffer_def)

lemma new_Set_distinct: "distinct xs \<Longrightarrow> new_Set xs = xs"
  by (simp add: new_Set_def distinct_remdups_id)

lemma load_save_bindHost: "bindHost (load st (save st d)) = []"
  by (simp add: load_def save_def foldl_addBuffer Let_def)

text \<open>
  What \<open>save\<close> followed by \<open>load\<close> gives back of a state whose buffer map is the object
  without a prototype: everything but \<open>bindHost\<close> and the buffers' \<open>lastSeen\<close>.
\<close>

lemma load_save_round_trip:
  assumes "buffers st = NullProto al" and "buffers_inv al"
    and "distinct (linkedIncomingConIds st)"
    and "caps st = CapsSet cs" and "distinct cs"
  shows "load st (save st d) =
           st\<lparr> bindHost := [],
               buffers := NullProto (map (\<lambda>(k, b). (k, b\<lparr> lastSeen := 0 \<rparr>)) al),
               loaded := True \<rparr>"
proof -
  have "foldl (\<lambda>acc (chanName, obj). AList.update (toLowerCase (name obj)) (fromObj obj) acc) []
          al = map (\<lambda>(k, b). (k, b\<lparr> lastSeen := 0 \<rparr>)) al"
    using foldl_update_rebuild [OF assms(2), of "[]"] by (simp add: fromObj_lastSeen)
  with assms show ?thesis
    by (simp add: load_def save_def foldl_addBuffer Let_def new_Set_distinct)
qed

text \<open>
  The Array that \<open>load\<close> leaves when it finds no row is written as \<open>[]\<close>: none of the buffers
  it holds comes back. So it is for the channel \<open>#a\<close> added to a connection that found no
  row.
\<close>

lemma load_save_Array:
  "buffers st = JSArray al \<Longrightarrow> buffers (load st (save st d)) = NullProto []"
  by (simp add: load_def save_def Let_def)

lemma load_without_row: "d (conId st) = None \<Longrightarrow> buffers (load st d) = JSArray []"
  by (simp add: load_def)

lemma fresh_buffers_not_saved:
  "(case addBuffer (Inl ''#a'') None example_fresh of
      Described (buffer, st) \<Rightarrow>
        getBuffer st ''#A'' = Described (Some buffer) \<and>
        buffers (load st (save st Map.empty)) = NullProto []
    | NotDescribed \<Rightarrow> False)"
  by (simp add: example_fresh_def new_ConnectionState_def load_def save_def addBuffer_def
        assign_key_def getBuffer_def read_key_def plain_key_def toLowerCase_def
        new_IrcBuffer_def Let_def)

text \<open>
  C6. \<open>save\<close> followed by \<open>load\<close> does not give back \<open>bindHost\<close> (written as the empty string)
  nor a buffer's \<open>lastSeen\<close> (not copied by \<open>fromObj\<close>); \<open>load_save_round_trip\<close> above shows
  that every other field comes back.
\<close>

theorem C6_save_load_loses_fields:
  "bindHost example_saved = ''192.0.2.7'' \<and>
   bindHost (load example_saved (save example_saved Map.empty)) = [] \<and>
   map (\<lambda>(k, b). lastSeen b) (entries (buffers example_saved)) = [1573000000] \<and>
   map (\<lambda>(k, b). lastSeen b)
     (entries (buffers (load example_saved (save example_saved Map.empty)))) = [0]"
  by (simp add: example_saved_def example_upstream_def new_ConnectionState_def new_IrcBuffer_def
        load_def save_def addBuffer_def assign_key_def fromObj_def toLowerCase_def Let_def)

subsection \<open>Buffer operations\<close>




text \<open>
  On the Array of a connection that found no row, channel names are plain keys and the
  operations do what they do on the object. A name such as \<open>join\<close> is a member of the Array:
  what is read under it is no buffer, and the operations are not described for it.
\<close>

lemma Array_plain_key:
  "buffers st = JSArray al \<Longrightarrow> plain_key (toLowerCase n) \<Longrightarrow>
     getBuffer st n = Described (map_of al (toLowerCase n)) \<and>
     addBuffer (Inl n) up st =
       Described (new_IrcBuffer n up,
                  st\<lparr> buffers := JSArray (AList.update (toLowerCase n) (new_IrcBuffer n up) al) \<rparr>) \<and>
     delBuffer n st = Described (st\<lparr> buffers := JSArray (AList.delete (toLowerCase n) al) \<rparr>)"
  by (simp add: getBuffer_def read_key_def addBuffer_def assign_key_def delBuffer_def
        delete_key_def Let_def)

lemma Array_member:
  "getBuffer example_fresh ''join'' = NotDescribed \<and>
   addBuffer (Inl ''join'') None example_fresh = NotDescribed \<and>
   (case addBuffer (Inl ''#a'') None example_fresh of
      Described (buffer, st) \<Rightarrow> renameBuffer ''#a'' ''join'' st = NotDescribed
    | NotDescribed \<Rightarrow> False)"
  by (simp add: example_fresh_def new_ConnectionState_def load_def getBuffer_def read_key_def
        plain_key_def renameBuffer_def addBuffer_def assign_key_def toLowerCase_def
        new_IrcBuffer_def Let_def)

subsection \<open>BOUNCER LISTNETWORKS and DELBUFFER\<close>

lemma listnetworks_tls_part:
  "listnetworks_parts c net ! 3 = ''1'' \<and>
   listnetworks_parts c net ! 1 = ''host='' @ net_host net \<and>
   listnetworks_parts c net ! 4 = ''host='' @ net_host net"
  by (simp add: listnetworks_parts_def js_string_of_bool_def)

text \<open>
  C8. The line for a network without TLS: the fourth part is \<open>1\<close> with no \<open>tls=\<close> tag, and
  \<open>host=\<close> appears twice.
\<close>

theorem C8_listnetworks_line:
  "commands_BOUNCER example_env
       \<lparr> command = ''BOUNCER'', params = [''listnetworks''], source = None \<rparr> example_attached
     = Inr (False,
            example_attached
              \<lparr> out := [WriteMsg ''BOUNCER''
                          [Some ''listnetworks'',
                           Some ''network=freenode;host=irc.freenode.net;port=6667;1;host=irc.freenode.net;state=connected''],
                        WriteMsg ''BOUNCER'' [Some ''listnetwork'', Some ''RPL_OK'']] \<rparr>)"
  by (simp add: example_defs commands_BOUNCER_def BOUNCER_LISTNETWORKS_def listnetworks_parts_def
        js_string_of_bool_def strs_def emit_def mParamU_def mParam_def param_def truthy_def
        toUpperCase_def findUsersOutgoingConnection_def Let_def)

text \<open>
  DELBUFFER with valid arguments and an upstream in the registry: the call of \<open>getChannel\<close>
  throws before anything is written, whether the upstream has the buffer or not.
\<close>

lemma DELBUFFER_live_upstream:
  assumes "mParam m 1 [] \<noteq> []" and "mParam m 2 [] \<noteq> []"
    and "getNetworkByName e (authUserId (state c)) (mParam m 1 []) = Some network"
    and "findUsersOutgoingConnection (conDict c) (authUserId (state c)) (net_id network) = Some u"
  shows "BOUNCER_DELBUFFER e m c = Inl (TypeError, c)"
  using assms by (simp add: BOUNCER_DELBUFFER_def getChannel_def Let_def)

text \<open>Without an upstream in the registry the handler replies \<open>RPL_OK\<close> and returns.\<close>

lemma DELBUFFER_no_upstream:
  assumes "mParam m 1 [] \<noteq> []" and "mParam m 2 [] \<noteq> []"
    and "getNetworkByName e (authUserId (state c)) (mParam m 1 []) = Some network"
    and "findUsersOutgoingConnection (conDict c) (authUserId (state c)) (net_id network) = None"
  shows "BOUNCER_DELBUFFER e m c =
           Inr (False,
                emit [WriteMsg ''BOUNCER''
                        (strs [''delbuffer'', net_name network, mParam m 2 [], ''RPL_OK''])] c)"
  using assms by (simp add: BOUNCER_DELBUFFER_def Let_def)

text \<open>
  C9. DELBUFFER from the attached client, for the joined channel \<open>#a\<close> of its upstream and
  for a buffer the upstream does not have: both times the handler throws a TypeError, no
  \<open>RPL_OK\<close> is written, no PART is sent and the upstream keeps its buffers.
\<close>

theorem C9_delbuffer_throws:
  "getBuffer example_upstream ''#a''
     = Described (Some ((new_IrcBuffer ''#a'' None)\<lparr> joined := True, topic := ''t'' \<rparr>)) \<and>
   commands_BOUNCER example_env
       \<lparr> command = ''BOUNCER'', params = [''DELBUFFER'', ''freenode'', ''#a''], source = None \<rparr>
       example_attached
     = Inl (TypeError, example_attached) \<and>
   getBuffer example_upstream ''#nosuch'' = Described None \<and>
   commands_BOUNCER example_env
       \<lparr> command = ''BOUNCER'', params = [''DELBUFFER'', ''freenode'', ''#nosuch''], source = None \<rparr>
       example_attached
     = Inl (TypeError, example_attached)"
  by (simp add: example_defs commands_BOUNCER_def BOUNCER_DELBUFFER_def getChannel_def
        getBuffer_def read_key_def
        strs_def emit_def mParamU_def mParam_def param_def truthy_def
        toUpperCase_def toLowerCase_def findUsersOutgoingConnection_def Let_def)

subsection \<open>PRIVMSG to *bnc\<close>

text \<open>
  C10. For an authenticated client with an upstream, a PRIVMSG to \<open>*bnc\<close> is first echoed to
  every other client linked to the upstream, with the upstream's nick as prefix, and then
  handed to ClientControl. The handler returns false and makes no other call: the message
  is not stored.
\<close>

theorem C10_privmsg_bnc:
  assumes up: "upstream c = Some u"
    and auth: "authUserId (state c) \<noteq> 0"
    and target: "param m 0 = Some ''*bnc''"
  shows "commands_PRIVMSG e m c =
           Inr (False,
                c\<lparr> out := out c
                     @ map (\<lambda>client. ClientWriteMsgFrom client (nick u) ''PRIVMSG'' [param m 0, param m 1])
                           (filter (\<lambda>i. i \<noteq> conId (state c)) (linkedIncomingConIds u))
                     @ [ClientControlRun m] \<rparr>)"
  using assms
  by (simp add: commands_PRIVMSG_def echo_to_siblings_def emit_def forEachClient_def Let_def upstream_def)

theorem C10_privmsg_bnc_witness:
  "upstream example_attached = Some example_upstream \<and>
   commands_PRIVMSG example_env
       \<lparr> command = ''PRIVMSG'', params = [''*bnc'', ''hello''], source = None \<rparr> example_attached
     = Inr (False,
            example_attached
              \<lparr> out := [ClientWriteMsgFrom ''c2'' (Some ''alice'') ''PRIVMSG''
                          [Some ''*bnc'', Some ''hello''],
                        ClientControlRun
                          \<lparr> command = ''PRIVMSG'', params = [''*bnc'', ''hello''], source = None \<rparr>] \<rparr>)"
  using C10_privmsg_bnc [where c = example_attached and u = example_upstream
          and m = "\<lparr> command = ''PRIVMSG'', params = [''*bnc'', ''hello''], source = None \<rparr>"
          and e = example_env]
  by (simp add: example_defs upstream_def findUsersOutgoingConnection_def param_def)

end
